theory Spec2Isabelle
  imports Main "HOL-Library.AList" "HOL-Library.Multiset"
begin

section \<open>The MTGA log follower (mtga\_follower.py)\<close>

text \<open>
  A shallow embedding of the class \<open>Follower\<close> of \<^verbatim>\<open>src/mtga_follower.py\<close>: the
  segmenter (\<open>__append_line\<close>, \<open>__handle_complete_log_entry\<close>), the payload extractor
  (\<open>__handle_blob\<close>, \<open>__extract_payload\<close>), the dispatcher, the handlers with the
  aggregator state they share, and the publisher (\<open>__retry_post\<close>).

  Python exceptions are values of \<open>error\<close>; a method that can raise after it has changed
  the object returns the changed object together with the error. Library functions the
  code calls (the JSON decoder, \<open>strptime\<close>, \<open>int\<close> and \<open>str\<close> on strings, one regular
  expression with backtracking) are fields of the record \<open>env\<close>. The server is the list
  of status codes it will answer with.
\<close>

subsection \<open>JSON values and the Python operations on them\<close>

text \<open>
  The values \<open>json.JSONDecoder\<close> produces: \<open>None\<close>, \<open>bool\<close>, \<open>int\<close> (unbounded),
  \<open>str\<close>, \<open>list\<close> and \<open>dict\<close> (keys in insertion order). Non-integral numbers are
  left out of the model.
\<close>

datatype json =
    JNull
  | JBool bool
  | JInt int
  | JStr string
  | JArr "json list"
  | JObj "(string \<times> json) list"

datatype error =
    KeyError
  | IndexError
  | TypeError
  | ValueError
  | AttributeError
  | AssertionError
  | UnboundLocalError
  | RequestException

text \<open>Sequencing of computations that may raise.\<close>

definition bindE :: "error + 'a \<Rightarrow> ('a \<Rightarrow> error + 'b) \<Rightarrow> error + 'b" where
  "bindE m f = (case m of Inl e \<Rightarrow> Inl e | Inr x \<Rightarrow> f x)"

fun mapE :: "('a \<Rightarrow> error + 'b) \<Rightarrow> 'a list \<Rightarrow> error + 'b list" where
  "mapE f [] = Inr []"
| "mapE f (x # xs) =
     (case f x of Inl e \<Rightarrow> Inl e
      | Inr y \<Rightarrow> (case mapE f xs of Inl e \<Rightarrow> Inl e | Inr ys \<Rightarrow> Inr (y # ys)))"

text \<open>\<open>x[k]\<close> with a string key.\<close>

fun py_item :: "json \<Rightarrow> string \<Rightarrow> error + json" where
  "py_item (JObj kvs) k = (case map_of kvs k of None \<Rightarrow> Inl KeyError | Some v \<Rightarrow> Inr v)"
| "py_item _ k = Inl TypeError"

text \<open>\<open>x.get(k, d)\<close>: only a \<open>dict\<close> has the method.\<close>

fun py_get :: "json \<Rightarrow> string \<Rightarrow> json \<Rightarrow> error + json" where
  "py_get (JObj kvs) k d = (case map_of kvs k of None \<Rightarrow> Inr d | Some v \<Rightarrow> Inr v)"
| "py_get _ k d = Inl AttributeError"

fun is_infix :: "string \<Rightarrow> string \<Rightarrow> bool" where
  "is_infix k [] = (k = [])"
| "is_infix k (c # cs) = (take (length k) (c # cs) = k \<or> is_infix k cs)"

text \<open>
  \<open>k in x\<close> for a string \<open>k\<close>: a key of a \<open>dict\<close>, an element of a \<open>list\<close>, a
  substring of a \<open>str\<close>; the other values are not iterable.
\<close>

fun py_in :: "string \<Rightarrow> json \<Rightarrow> error + bool" where
  "py_in k (JObj kvs) = Inr (k \<in> fst ` set kvs)"
| "py_in k (JArr xs) = Inr (JStr k \<in> set xs)"
| "py_in k (JStr s) = Inr (is_infix k s)"
| "py_in k _ = Inl TypeError"

text \<open>\<open>for x in v\<close>: the elements of a list, the keys of a dict, the characters of a string.\<close>

fun py_iter :: "json \<Rightarrow> error + json list" where
  "py_iter (JArr xs) = Inr xs"
| "py_iter (JObj kvs) = Inr (map (\<lambda>kv. JStr (fst kv)) kvs)"
| "py_iter (JStr s) = Inr (map (\<lambda>c. JStr [c]) s)"
| "py_iter _ = Inl TypeError"

text \<open>Truthiness, as in \<open>if instance_id\<close>.\<close>

fun py_truthy :: "json \<Rightarrow> bool" where
  "py_truthy JNull = False"
| "py_truthy (JBool b) = b"
| "py_truthy (JInt n) = (n \<noteq> 0)"
| "py_truthy (JStr s) = (s \<noteq> [])"
| "py_truthy (JArr xs) = (xs \<noteq> [])"
| "py_truthy (JObj kvs) = (kvs \<noteq> [])"

text \<open>
  \<open>==\<close>: \<open>bool\<close> is a subtype of \<open>int\<close> (\<open>True == 1\<close>), so booleans are compared as
  integers, at any depth. Two dicts are compared with their keys in decoding order.
\<close>

primrec py_norm :: "json \<Rightarrow> json" where
  "py_norm JNull = JNull"
| "py_norm (JBool b) = JInt (if b then 1 else 0)"
| "py_norm (JInt n) = JInt n"
| "py_norm (JStr s) = JStr s"
| "py_norm (JArr xs) = JArr (map py_norm xs)"
| "py_norm (JObj kvs) = JObj (map (map_prod id py_norm) kvs)"

definition py_eq :: "json \<Rightarrow> json \<Rightarrow> bool" where
  "py_eq a b = (py_norm a = py_norm b)"

text \<open>
  Keys of the aggregator's dicts: the hashable JSON values, with \<open>True\<close> and \<open>1\<close> the same
  key. A list or a dict is unhashable.
\<close>

datatype key = KNone | KInt int | KStr string

fun key_of :: "json \<Rightarrow> error + key" where
  "key_of JNull = Inr KNone"
| "key_of (JBool b) = Inr (KInt (if b then 1 else 0))"
| "key_of (JInt n) = Inr (KInt n)"
| "key_of (JStr s) = Inr (KStr s)"
| "key_of _ = Inl TypeError"

text \<open>
  A Python dict is an association list with distinct keys in insertion order:
  \<open>d[k] = v\<close> is \<open>AList.update k v d\<close>, \<open>d.get(k)\<close> is \<open>map_of d k\<close>, \<open>d.clear()\<close>
  leaves \<open>[]\<close>. Reading \<open>d[k]\<close> from a \<open>defaultdict\<close> stores the default under a
  missing key.
\<close>

type_synonym ('k, 'v) dict = "('k \<times> 'v) list"

definition dd_get :: "'v \<Rightarrow> ('k, 'v) dict \<Rightarrow> 'k \<Rightarrow> 'v" where
  "dd_get dflt d k = (case map_of d k of None \<Rightarrow> dflt | Some v \<Rightarrow> v)"

definition dd_touch :: "'v \<Rightarrow> ('k, 'v) dict \<Rightarrow> 'k \<Rightarrow> ('k, 'v) dict" where
  "dd_touch dflt d k = (case map_of d k of None \<Rightarrow> d @ [(k, dflt)] | Some v \<Rightarrow> d)"

subsection \<open>The follower's state\<close>

type_synonym datetime = int

record follower =
  host :: string
  token :: string
  buffer :: "string list"
  cur_log_time :: "datetime option"
  last_utc_time :: datetime
  last_raw_time :: string
  cur_user :: json
  cur_constructed_level :: "string option"
  cur_limited_level :: "string option"
  cur_opponent_level :: "string option"
  cur_opponent_match_id :: json
  current_match_event_id :: "(json \<times> json) option"
  starting_team_id :: json
  objects_by_owner :: "(key, (key, json) dict) dict"
  opening_hand_count_by_seat :: "(key, int) dict"
  opening_hand :: "(key, json list) dict"
  drawn_hands :: "(key, json list list) dict"
  cards_in_hand :: "(key, json list) dict"
  responses :: "int list"
  attempts :: "(string \<times> json) list"
  published :: "(string \<times> json) list"
  logged :: "(error \<times> string) list"

text \<open>
  The last four fields are the world around the object: \<open>responses\<close> the status codes
  the server will answer with, in order; \<open>attempts\<close> every \<open>requests.post\<close> made (URL and
  body); \<open>published\<close> every call of \<open>__retry_post\<close> (URL and blob); \<open>logged\<close> what the
  handler of \<open>__handle_complete_log_entry\<close> passed to \<open>logging.error\<close>.
\<close>

text \<open>\<open>__init__\<close>: \<open>datetime.datetime.fromtimestamp(0)\<close> is time 0, and is not \<open>None\<close>.\<close>

definition init :: "string \<Rightarrow> string \<Rightarrow> int list \<Rightarrow> follower" where
  "init tok hst srv = \<lparr>
     host = hst, token = tok, buffer = [],
     cur_log_time = Some 0, last_utc_time = 0, last_raw_time = [],
     cur_user = JNull,
     cur_constructed_level = None, cur_limited_level = None, cur_opponent_level = None,
     cur_opponent_match_id = JNull, current_match_event_id = None,
     starting_team_id = JNull,
     objects_by_owner = [], opening_hand_count_by_seat = [], opening_hand = [],
     drawn_hands = [], cards_in_hand = [],
     responses = srv, attempts = [], published = [], logged = [] \<rparr>"

definition clear_game_data :: "follower \<Rightarrow> follower" where
  "clear_game_data s = s\<lparr>
     objects_by_owner := [],
     opening_hand_count_by_seat := [],
     opening_hand := [],
     drawn_hands := [],
     starting_team_id := JNull \<rparr>"

subsection \<open>The publisher\<close>

definition CLIENT_VERSION :: string where
  "CLIENT_VERSION = ''0.1.8''"

definition RETRIES :: int where
  "RETRIES = 2"

definition IS_CODE_FOR_RETRY :: "int \<Rightarrow> bool" where
  "IS_CODE_FOR_RETRY code = (code \<ge> 500 \<and> code < 600)"

text \<open>
  \<open>requests.post\<close>: the next status code of the server; with none left the call raises
  (no connection).
\<close>

definition requests_post :: "string \<Rightarrow> json \<Rightarrow> follower \<Rightarrow> (error + int) \<times> follower" where
  "requests_post url body s =
     (case responses s of
        [] \<Rightarrow> (Inl RequestException, s\<lparr>attempts := attempts s @ [(url, body)]\<rparr>)
      | c # cs \<Rightarrow> (Inr c, s\<lparr>responses := cs, attempts := attempts s @ [(url, body)]\<rparr>))"

text \<open>
  The \<open>while tries_left > 0\<close> loop; the third argument is \<open>response\<close>, unbound before the
  first request.
\<close>

fun post_loop :: "nat \<Rightarrow> string \<Rightarrow> json \<Rightarrow> int option \<Rightarrow> follower \<Rightarrow> (error + int) \<times> follower" where
  "post_loop 0 url body response s =
     (case response of None \<Rightarrow> (Inl UnboundLocalError, s) | Some r \<Rightarrow> (Inr r, s))"
| "post_loop (Suc tries_left) url body response s =
     (case requests_post url body s of
        (Inl e, s1) \<Rightarrow> (Inl e, s1)
      | (Inr r, s1) \<Rightarrow>
          if \<not> IS_CODE_FOR_RETRY r then (Inr r, s1)
          else post_loop tries_left url body (Some r) s1)"

text \<open>
  The library functions the code calls, as parameters:
  \<^item> \<open>raw_decode s i\<close> is \<open>json.JSONDecoder().raw_decode(s, i)\<close>, the value decoded at
    index \<open>i\<close> and the index where it ends, \<open>None\<close> for a \<open>JSONDecodeError\<close>;
  \<^item> \<open>json_loads\<close> is \<open>json.loads\<close> on a string, \<open>None\<close> for a \<open>JSONDecodeError\<close>;
  \<^item> \<open>strptime s fmt\<close> is \<open>datetime.datetime.strptime\<close>, \<open>None\<close> for a \<open>ValueError\<close>;
  \<^item> \<open>isoformat\<close> is \<open>datetime.isoformat\<close>;
  \<^item> \<open>int_of_str\<close> is \<open>int\<close> on a string, \<open>None\<close> for a \<open>ValueError\<close>;
  \<^item> \<open>str_of\<close> is \<open>str\<close>;
  \<^item> \<open>account_info_match\<close> gives groups 1 and 2 of \<open>ACCOUNT_INFO_REGEX.match\<close>;
  \<^item> \<open>utc_of_timestamp\<close> is the conversion at the end of \<open>__maybe_get_utc_timestamp\<close>
    (ticks since year 1, else \<open>dateutil.parser.isoparse\<close>), \<open>None\<close> when it raises;
  \<^item> \<open>set_order\<close> is the order in which Python iterates over the set built from a list
    without duplicates.
\<close>

record env =
  raw_decode :: "string \<Rightarrow> nat \<Rightarrow> (json \<times> nat) option"
  json_loads :: "string \<Rightarrow> json option"
  strptime :: "string \<Rightarrow> string \<Rightarrow> datetime option"
  isoformat :: "datetime \<Rightarrow> string"
  int_of_str :: "string \<Rightarrow> int option"
  str_of :: "json \<Rightarrow> string"
  account_info_match :: "string \<Rightarrow> (string \<times> string) option"
  utc_of_timestamp :: "json \<Rightarrow> datetime option"
  set_order :: "(key \<times> key) list \<Rightarrow> (key \<times> key) list"

text \<open>\<open>blob[k] = v\<close> on a record under construction (a dict with string keys).\<close>

fun blob_set :: "string \<Rightarrow> json \<Rightarrow> json \<Rightarrow> json" where
  "blob_set k v (JObj kvs) = JObj (AList.update k v kvs)"
| "blob_set k v j = j"

definition retry_post_n ::
  "env \<Rightarrow> string \<Rightarrow> json \<Rightarrow> int \<Rightarrow> follower \<Rightarrow> (error + int) \<times> follower" where
  "retry_post_n ev endpoint blob num_retries s =
     (let body = blob_set ''utc_time'' (JStr (isoformat ev (last_utc_time s)))
                  (blob_set ''token'' (JStr (token s))
                    (blob_set ''client_version'' (JStr CLIENT_VERSION) blob));
          s0 = s\<lparr>published := published s @ [(endpoint, blob)]\<rparr>
      in post_loop (nat (num_retries + 1)) endpoint body None s0)"

definition retry_post ::
  "env \<Rightarrow> string \<Rightarrow> json \<Rightarrow> follower \<Rightarrow> (error + int) \<times> follower" where
  "retry_post ev endpoint blob s = retry_post_n ev endpoint blob RETRIES s"

subsection \<open>Deck lists\<close>

text \<open>\<open>range(count)\<close>: an \<open>int\<close> (or a \<open>bool\<close>) many rounds, none for a negative one.\<close>

fun py_range :: "json \<Rightarrow> error + nat" where
  "py_range (JInt n) = Inr (nat n)"
| "py_range (JBool b) = Inr (if b then 1 else 0)"
| "py_range _ = Inl TypeError"

text \<open>
  The loop \<open>for i in range(len(decklist) // 2)\<close> of \<open>__get_card_ids_from_decklist_v3\<close>,
  from index \<open>i\<close> with \<open>n\<close> rounds left.
\<close>

fun v3_loop :: "json list \<Rightarrow> nat \<Rightarrow> nat \<Rightarrow> json list \<Rightarrow> error + json list" where
  "v3_loop decklist i 0 result = Inr result"
| "v3_loop decklist i (Suc n) result =
     (let card_id = decklist ! (2 * i);
          count = decklist ! (2 * i + 1)
      in case py_range count of
           Inl e \<Rightarrow> Inl e
         | Inr c \<Rightarrow> v3_loop decklist (Suc i) n (result @ replicate c card_id))"

fun py_len :: "json \<Rightarrow> error + nat" where
  "py_len (JArr xs) = Inr (length xs)"
| "py_len (JObj kvs) = Inr (length kvs)"
| "py_len (JStr s) = Inr (length s)"
| "py_len _ = Inl TypeError"

fun get_card_ids_from_decklist_v3 :: "json \<Rightarrow> error + json list" where
  "get_card_ids_from_decklist_v3 (JArr decklist) =
     (if length decklist mod 2 \<noteq> 0 then Inl AssertionError
      else v3_loop decklist 0 (length decklist div 2) [])"
| "get_card_ids_from_decklist_v3 (JStr s) =
     (if length s mod 2 \<noteq> 0 then Inl AssertionError
      else if s = [] then Inr [] else Inl TypeError)"
| "get_card_ids_from_decklist_v3 (JObj kvs) =
     (if length kvs mod 2 \<noteq> 0 then Inl AssertionError
      else if kvs = [] then Inr [] else Inl KeyError)"
| "get_card_ids_from_decklist_v3 _ = Inl TypeError"

subsection \<open>Actions on the follower that may raise\<close>

type_synonym 'a act = "follower \<Rightarrow> (error + 'a) \<times> follower"

definition bindS :: "'a act \<Rightarrow> ('a \<Rightarrow> 'b act) \<Rightarrow> 'b act" where
  "bindS m f s = (case m s of (Inl e, s1) \<Rightarrow> (Inl e, s1) | (Inr x, s1) \<Rightarrow> f x s1)"

definition liftE :: "error + 'a \<Rightarrow> 'a act" where
  "liftE m s = (m, s)"

definition getS :: "(follower \<Rightarrow> 'a) \<Rightarrow> 'a act" where
  "getS f s = (Inr (f s), s)"

definition modify :: "(follower \<Rightarrow> follower) \<Rightarrow> unit act" where
  "modify f s = (Inr (), f s)"

text \<open>A \<open>for\<close> loop whose body may raise: the exception ends the loop.\<close>

fun forS :: "('a \<Rightarrow> unit act) \<Rightarrow> 'a list \<Rightarrow> unit act" where
  "forS body [] s = (Inr (), s)"
| "forS body (x # xs) s =
     (case body x s of (Inl e, s1) \<Rightarrow> (Inl e, s1) | (Inr u, s1) \<Rightarrow> forS body xs s1)"

text \<open>\<open>x[k1][k2]...\<close>\<close>

fun py_path :: "json \<Rightarrow> string list \<Rightarrow> error + json" where
  "py_path j [] = Inr j"
| "py_path j (k # ks) = bindE (py_item j k) (\<lambda>v. py_path v ks)"

text \<open>\<open>self.cur_log_time.isoformat()\<close>\<close>

definition time_iso :: "env \<Rightarrow> follower \<Rightarrow> error + json" where
  "time_iso ev s =
     (case cur_log_time s of None \<Rightarrow> Inl AttributeError | Some t \<Rightarrow> Inr (JStr (isoformat ev t)))"

definition opt_str :: "string option \<Rightarrow> json" where
  "opt_str x = (case x of None \<Rightarrow> JNull | Some v \<Rightarrow> JStr v)"

definition ENDPOINT_USER :: string where "ENDPOINT_USER = ''api/account''"
definition ENDPOINT_DECK_SUBMISSION :: string where "ENDPOINT_DECK_SUBMISSION = ''deck''"
definition ENDPOINT_EVENT_SUBMISSION :: string where "ENDPOINT_EVENT_SUBMISSION = ''event''"
definition ENDPOINT_GAME_RESULT :: string where "ENDPOINT_GAME_RESULT = ''game''"
definition ENDPOINT_DRAFT_PACK :: string where "ENDPOINT_DRAFT_PACK = ''pack''"
definition ENDPOINT_DRAFT_PICK :: string where "ENDPOINT_DRAFT_PICK = ''pick''"
definition ENDPOINT_HUMAN_DRAFT_PICK :: string where "ENDPOINT_HUMAN_DRAFT_PICK = ''human_draft_pick''"
definition ENDPOINT_COLLECTION :: string where "ENDPOINT_COLLECTION = ''collection''"

text \<open>\<open>response = self.__retry_post(f'{self.host}/{endpoint}', blob=blob)\<close>\<close>

definition send :: "env \<Rightarrow> string \<Rightarrow> json \<Rightarrow> unit act" where
  "send ev endpoint blob s =
     (case retry_post ev (host s @ ''/'' @ endpoint) blob s of
        (Inl e, s1) \<Rightarrow> (Inl e, s1)
      | (Inr r, s1) \<Rightarrow> (Inr (), s1))"

subsection \<open>Game end\<close>

definition send_game_end ::
  "env \<Rightarrow> json \<Rightarrow> json \<Rightarrow> json \<Rightarrow> json \<Rightarrow> bool \<Rightarrow> bool \<Rightarrow> json \<Rightarrow> json \<Rightarrow> json \<Rightarrow> json
     \<Rightarrow> unit act" where
  "send_game_end ev seat_id match_id mulliganed_hands event_name on_play won win_type
       game_end_reason turn_count duration s =
     (let opponent_id = (if py_eq seat_id (JInt 1) then KInt 2 else KInt 1);
          opponent_card_ids = map snd (dd_get [] (objects_by_owner s) opponent_id);
          s1 = (if \<not> py_eq match_id (cur_opponent_match_id s)
                then s\<lparr>cur_opponent_level := None\<rparr> else s)
      in case time_iso ev s1 of
           Inl e \<Rightarrow> (Inl e, s1)
         | Inr tm \<Rightarrow>
          (case key_of seat_id of
             Inl e \<Rightarrow> (Inl e, s1)
           | Inr seat \<Rightarrow>
             (let s2 = s1\<lparr>opening_hand := dd_touch [] (opening_hand s1) seat\<rparr>;
                  s3 = s2\<lparr>opening_hand_count_by_seat :=
                           dd_touch 0 (opening_hand_count_by_seat s2) seat\<rparr>;
                  s4 = s3\<lparr>opening_hand_count_by_seat :=
                           dd_touch 0 (opening_hand_count_by_seat s3) opponent_id\<rparr>;
                  game = JObj [
                    (''player_id'', cur_user s4),
                    (''event_name'', event_name),
                    (''match_id'', match_id),
                    (''time'', tm),
                    (''on_play'', JBool on_play),
                    (''won'', JBool won),
                    (''win_type'', win_type),
                    (''game_end_reason'', game_end_reason),
                    (''opening_hand'', JArr (dd_get [] (opening_hand s4) seat)),
                    (''mulligans'', mulliganed_hands),
                    (''mulligan_count'', JInt (dd_get 0 (opening_hand_count_by_seat s4) seat - 1)),
                    (''opponent_mulligan_count'',
                       JInt (dd_get 0 (opening_hand_count_by_seat s4) opponent_id - 1)),
                    (''turns'', turn_count),
                    (''duration'', duration),
                    (''opponent_card_ids'', JArr opponent_card_ids),
                    (''limited_rank'', opt_str (cur_limited_level s4)),
                    (''constructed_rank'', opt_str (cur_constructed_level s4)),
                    (''opponent_rank'', opt_str (cur_opponent_level s4))]
              in send ev ENDPOINT_GAME_RESULT game (clear_game_data s4))))"

text \<open>\<open>x[0]\<close>\<close>

fun py_first :: "json \<Rightarrow> error + json" where
  "py_first (JArr []) = Inl IndexError"
| "py_first (JArr (x # xs)) = Inr x"
| "py_first (JStr []) = Inl IndexError"
| "py_first (JStr (c # cs)) = Inr (JStr [c])"
| "py_first (JObj kvs) = Inl KeyError"
| "py_first _ = Inl TypeError"

text \<open>A value as a summand of \<open>sum(...)\<close>, which starts from the integer 0.\<close>

fun py_num :: "json \<Rightarrow> error + int" where
  "py_num (JInt n) = Inr n"
| "py_num (JBool b) = Inr (if b then 1 else 0)"
| "py_num _ = Inl TypeError"

fun sum_turns :: "json list \<Rightarrow> int \<Rightarrow> error + int" where
  "sum_turns [] acc = Inr acc"
| "sum_turns (p # ps) acc =
     bindE (py_item p ''turnNumber'') (\<lambda>t. bindE (py_num t) (\<lambda>n. sum_turns ps (acc + n)))"

definition turn_count_of :: "json \<Rightarrow> error + json" where
  "turn_count_of game_state_message =
     bindE (py_get game_state_message ''turnInfo'' (JObj [])) (\<lambda>turn_info.
     bindE (py_get turn_info ''turnNumber'' JNull) (\<lambda>maybe_turn_number.
       if maybe_turn_number = JNull then
         bindE (py_get game_state_message ''players'' (JArr [])) (\<lambda>players.
         bindE (py_len players) (\<lambda>n.
           if n > 0 then
             bindE (py_iter players) (\<lambda>ps. bindE (sum_turns ps 0) (\<lambda>t. Inr (JInt t)))
           else Inr (JInt (- 1))))
       else Inr maybe_turn_number))"

text \<open>
  The body of \<open>for result in reversed(results)\<close> once the scope is \<open>MatchScope_Game\<close>: it
  ends with \<open>return\<close>.
\<close>

definition game_over_result :: "env \<Rightarrow> json \<Rightarrow> json \<Rightarrow> json \<Rightarrow> json \<Rightarrow> unit act" where
  "game_over_result ev system_seat_ids game_state_message game_info result =
     bindS (liftE (py_first system_seat_ids)) (\<lambda>seat_id.
     bindS (liftE (py_item game_info ''matchID'')) (\<lambda>match_id.
     bindS (getS (\<lambda>s. case current_match_event_id s of
                         None \<Rightarrow> JNull
                       | Some (m, e) \<Rightarrow> if py_eq m match_id then e else JNull)) (\<lambda>event_id.
     bindS (liftE (turn_count_of game_state_message)) (\<lambda>maybe_turn_number.
     bindS (liftE (key_of seat_id)) (\<lambda>seat.
     bindS (modify (\<lambda>s. s\<lparr>drawn_hands := dd_touch [] (drawn_hands s) seat\<rparr>)) (\<lambda>u.
     bindS (getS (\<lambda>s. JArr (map JArr (butlast (dd_get [] (drawn_hands s) seat))))) (\<lambda>mulliganed_hands.
     bindS (getS (\<lambda>s. py_eq seat_id (starting_team_id s))) (\<lambda>on_play.
     bindS (liftE (py_item result ''winningTeamId'')) (\<lambda>winning_team_id.
     bindS (liftE (py_item result ''result'')) (\<lambda>win_type.
     bindS (liftE (py_item result ''reason'')) (\<lambda>game_end_reason.
       send_game_end ev seat_id match_id mulliganed_hands event_id on_play
         (py_eq seat_id winning_team_id) win_type game_end_reason maybe_turn_number
         (JInt (- 1)))))))))))))"

fun game_over_loop :: "env \<Rightarrow> json \<Rightarrow> json \<Rightarrow> json \<Rightarrow> json list \<Rightarrow> unit act" where
  "game_over_loop ev system_seat_ids game_state_message game_info [] s = (Inr (), s)"
| "game_over_loop ev system_seat_ids game_state_message game_info (result # rest) s =
     (case py_get result ''scope'' JNull of
        Inl e \<Rightarrow> (Inl e, s)
      | Inr scope \<Rightarrow>
          if \<not> py_eq scope (JStr ''MatchScope_Game'')
          then game_over_loop ev system_seat_ids game_state_message game_info rest s
          else game_over_result ev system_seat_ids game_state_message game_info result s)"

definition maybe_handle_game_over_stage :: "env \<Rightarrow> json \<Rightarrow> json \<Rightarrow> unit act" where
  "maybe_handle_game_over_stage ev system_seat_ids game_state_message =
     bindS (liftE (py_get game_state_message ''gameInfo'' (JObj []))) (\<lambda>game_info.
     bindS (liftE (py_get game_info ''stage'' JNull)) (\<lambda>stage.
       if \<not> py_eq stage (JStr ''GameStage_GameOver'') then liftE (Inr ())
       else
         bindS (liftE (py_get game_info ''results'' (JArr []))) (\<lambda>results.
         bindS (liftE (py_iter results)) (\<lambda>rs.
           game_over_loop ev system_seat_ids game_state_message game_info (rev rs)))))"

subsection \<open>GRE messages: the state aggregator\<close>

definition track_object :: "json \<Rightarrow> unit act" where
  "track_object game_object =
     bindS (liftE (py_item game_object ''type'')) (\<lambda>ty.
       if \<not> py_eq ty (JStr ''GameObjectType_Card'') then liftE (Inr ())
       else
         bindS (liftE (py_item game_object ''ownerSeatId'')) (\<lambda>owner.
         bindS (liftE (py_item game_object ''instanceId'')) (\<lambda>instance_id.
         bindS (liftE (py_item game_object ''overlayGrpId'')) (\<lambda>card_id.
         bindS (liftE (key_of owner)) (\<lambda>ko.
         bindS (modify (\<lambda>s. s\<lparr>objects_by_owner := dd_touch [] (objects_by_owner s) ko\<rparr>)) (\<lambda>u.
         bindS (liftE (key_of instance_id)) (\<lambda>ki.
           modify (\<lambda>s. s\<lparr>objects_by_owner :=
             AList.update ko (AList.update ki card_id (dd_get [] (objects_by_owner s) ko))
               (objects_by_owner s)\<rparr>))))))))"

text \<open>\<open>player_objects.get(instance_id)\<close>: \<open>None\<close> for an instance that is not known.\<close>

definition resolve :: "(key, json) dict \<Rightarrow> json \<Rightarrow> error + json" where
  "resolve player_objects instance_id =
     bindE (key_of instance_id) (\<lambda>k.
       Inr (case map_of player_objects k of None \<Rightarrow> JNull | Some c \<Rightarrow> c))"

definition track_zone :: "json \<Rightarrow> unit act" where
  "track_zone zone =
     bindS (liftE (py_item zone ''type'')) (\<lambda>ty.
       if \<not> py_eq ty (JStr ''ZoneType_Hand'') then liftE (Inr ())
       else
         bindS (liftE (py_item zone ''ownerSeatId'')) (\<lambda>owner.
         bindS (liftE (key_of owner)) (\<lambda>ko.
         bindS (modify (\<lambda>s. s\<lparr>objects_by_owner := dd_touch [] (objects_by_owner s) ko\<rparr>)) (\<lambda>u.
         bindS (getS (\<lambda>s. dd_get [] (objects_by_owner s) ko)) (\<lambda>player_objects.
         bindS (liftE (py_get zone ''objectInstanceIds'' (JArr []))) (\<lambda>hand_card_ids.
         bindS (liftE (py_iter hand_card_ids)) (\<lambda>ids.
         bindS (liftE (mapE (resolve player_objects) (filter py_truthy ids))) (\<lambda>hand.
           modify (\<lambda>s. s\<lparr>cards_in_hand := AList.update ko hand (cards_in_hand s)\<rparr>)))))))))"

text \<open>
  The elements of the set comprehension \<open>players_deciding_hand\<close>, in the order of
  \<open>players\<close>; a tuple in a set is hashed, component by component.
\<close>

fun deciding :: "json list \<Rightarrow> error + (key \<times> key) list" where
  "deciding [] = Inr []"
| "deciding (p # ps) =
     bindE (py_get p ''pendingMessageType'' JNull) (\<lambda>m.
       if py_eq m (JStr ''ClientMessageType_MulliganResp'') then
         bindE (py_item p ''systemSeatNumber'') (\<lambda>seat.
         bindE (py_get p ''mulliganCount'' (JInt 0)) (\<lambda>mc.
         bindE (key_of seat) (\<lambda>ks.
         bindE (key_of mc) (\<lambda>km.
         bindE (deciding ps) (\<lambda>r. Inr ((ks, km) # r))))))
       else deciding ps)"

definition mulligan_step :: "json \<Rightarrow> key \<times> key \<Rightarrow> unit act" where
  "mulligan_step turn_info pm s =
     (let player_id = fst pm; mulligan_count = snd pm in
      case (if starting_team_id s = JNull then py_get turn_info ''activePlayer'' JNull
            else Inr (starting_team_id s)) of
        Inl e \<Rightarrow> (Inl e, s)
      | Inr st \<Rightarrow>
         (let s1 = s\<lparr>starting_team_id := st\<rparr>;
              s2 = s1\<lparr>opening_hand_count_by_seat :=
                       AList.update player_id
                         (dd_get 0 (opening_hand_count_by_seat s1) player_id + 1)
                         (opening_hand_count_by_seat s1)\<rparr>;
              s3 = s2\<lparr>drawn_hands := dd_touch [] (drawn_hands s2) player_id\<rparr>
          in if mulligan_count = KInt (int (length (dd_get [] (drawn_hands s3) player_id)))
             then
               (let s4 = s3\<lparr>cards_in_hand := dd_touch [] (cards_in_hand s3) player_id\<rparr>
                in (Inr (), s4\<lparr>drawn_hands :=
                      AList.update player_id
                        (dd_get [] (drawn_hands s4) player_id
                           @ [dd_get [] (cards_in_hand s4) player_id])
                        (drawn_hands s4)\<rparr>))
             else (Inr (), s3)))"

definition capture_opening_hand :: "json \<Rightarrow> unit act" where
  "capture_opening_hand turn_info s =
     (if opening_hand s = [] then
        (case bindE (py_get turn_info ''phase'' JNull) (\<lambda>phase.
              bindE (py_get turn_info ''step'' JNull) (\<lambda>step.
              bindE (py_get turn_info ''turnNumber'' JNull) (\<lambda>turn_number.
                Inr (py_eq (JStr ''Phase_Beginning'') phase
                     \<and> py_eq (JStr ''Step_Upkeep'') step
                     \<and> py_eq (JInt 1) turn_number)))) of
           Inl e \<Rightarrow> (Inl e, s)
         | Inr b \<Rightarrow>
             if b then
               (Inr (), s\<lparr>opening_hand :=
                  fold (\<lambda>oh d. AList.update (fst oh) (snd oh) d) (cards_in_hand s)
                    (opening_hand s)\<rparr>)
             else (Inr (), s))
      else (Inr (), s))"

definition submit_deck_req :: "env \<Rightarrow> json \<Rightarrow> unit act" where
  "submit_deck_req ev message_blob =
     bindS (getS cur_user) (\<lambda>user.
     bindS (\<lambda>s. (time_iso ev s, s)) (\<lambda>tm.
     bindS (liftE (py_path message_blob [''submitDeckReq'', ''deck'', ''deckCards''])) (\<lambda>main.
     bindS (liftE (py_path message_blob [''submitDeckReq'', ''deck''])) (\<lambda>deck.
     bindS (liftE (py_get deck ''sideboardCards'' (JArr []))) (\<lambda>side.
       send ev ENDPOINT_DECK_SUBMISSION (JObj [
         (''player_id'', user),
         (''time'', tm),
         (''maindeck_card_ids'', main),
         (''sideboard_card_ids'', side),
         (''is_during_match'', JBool True)]))))))"

definition game_state_message :: "env \<Rightarrow> json \<Rightarrow> unit act" where
  "game_state_message ev message_blob =
     bindS (liftE (py_get message_blob ''gameStateMessage'' (JObj []))) (\<lambda>gsm.
     bindS (liftE (py_get message_blob ''systemSeatIds'' (JArr []))) (\<lambda>system_seat_ids.
     bindS (maybe_handle_game_over_stage ev system_seat_ids gsm) (\<lambda>u.
     bindS (liftE (py_get gsm ''gameObjects'' (JArr []))) (\<lambda>game_objects.
     bindS (liftE (py_iter game_objects)) (\<lambda>gos.
     bindS (forS track_object gos) (\<lambda>u.
     bindS (liftE (py_get gsm ''zones'' (JArr []))) (\<lambda>zones.
     bindS (liftE (py_iter zones)) (\<lambda>zs.
     bindS (forS track_zone zs) (\<lambda>u.
     bindS (liftE (py_get gsm ''turnInfo'' (JObj []))) (\<lambda>turn_info.
     bindS (liftE (py_get gsm ''players'' (JArr []))) (\<lambda>players.
     bindS (liftE (py_iter players)) (\<lambda>ps.
     bindS (liftE (deciding ps)) (\<lambda>pairs.
     bindS (forS (mulligan_step turn_info) (set_order ev (remdups pairs))) (\<lambda>u.
       capture_opening_hand turn_info))))))))))))))"

definition handle_gre_to_client_message :: "env \<Rightarrow> json \<Rightarrow> unit act" where
  "handle_gre_to_client_message ev message_blob =
     bindS (liftE (py_item message_blob ''type'')) (\<lambda>ty.
       if py_eq ty (JStr ''GREMessageType_SubmitDeckReq'') then submit_deck_req ev message_blob
       else if py_eq ty (JStr ''GREMessageType_GameStateMessage'')
         then game_state_message ev message_blob
       else liftE (Inr ()))"

subsection \<open>The other handlers\<close>

definition handle_match_started :: "json \<Rightarrow> unit act" where
  "handle_match_started blob =
     bindS (liftE (py_get blob ''matchGameRoomStateChangedEvent'' (JObj []))) (\<lambda>ev1.
     bindS (liftE (py_get ev1 ''gameRoomInfo'' (JObj []))) (\<lambda>info.
     bindS (liftE (py_get info ''gameRoomConfig'' (JObj []))) (\<lambda>game_room_config.
     bindS (liftE (py_in ''eventId'' game_room_config)) (\<lambda>has_event.
     bindS (liftE (if has_event then py_in ''matchId'' game_room_config else Inr False)) (\<lambda>has_match.
       if has_event \<and> has_match then
         bindS (liftE (py_item game_room_config ''matchId'')) (\<lambda>match_id.
         bindS (liftE (py_item game_room_config ''eventId'')) (\<lambda>event_id.
           modify (\<lambda>s. s\<lparr>current_match_event_id := Some (match_id, event_id)\<rparr>)))
       else liftE (Inr ()))))))"

definition handle_event_completion :: "env \<Rightarrow> json \<Rightarrow> unit act" where
  "handle_event_completion ev json_obj =
     bindS (getS cur_user) (\<lambda>user.
     bindS (liftE (py_item json_obj ''InternalEventName'')) (\<lambda>event_name.
     bindS (\<lambda>s. (time_iso ev s, s)) (\<lambda>tm.
     bindS (liftE (py_path json_obj [''ModuleInstanceData'', ''HasPaidEntry''])) (\<lambda>fee.
     bindS (liftE (py_path json_obj [''ModuleInstanceData'', ''WinLossGate'', ''CurrentWins''])) (\<lambda>wins.
     bindS (liftE (py_path json_obj [''ModuleInstanceData'', ''WinLossGate'', ''CurrentLosses''])) (\<lambda>losses.
       send ev ENDPOINT_EVENT_SUBMISSION (JObj [
         (''player_id'', user),
         (''event_name'', event_name),
         (''time'', tm),
         (''entry_fee'', fee),
         (''wins'', wins),
         (''losses'', losses)])))))))"

text \<open>\<open>[[x['grpId'] for x in hand] for hand in blob['mulliganedHands']]\<close>\<close>

definition grp_ids :: "json \<Rightarrow> error + json" where
  "grp_ids hands =
     bindE (py_iter hands) (\<lambda>hs.
     bindE (mapE (\<lambda>hand. bindE (py_iter hand) (\<lambda>xs.
                    bindE (mapE (\<lambda>x. py_item x ''grpId'') xs) (\<lambda>ys. Inr (JArr ys)))) hs)
       (\<lambda>r. Inr (JArr r)))"

definition handle_game_end :: "env \<Rightarrow> json \<Rightarrow> unit act" where
  "handle_game_end ev json_obj =
     bindS (liftE (py_path json_obj [''params'', ''payloadObject''])) (\<lambda>blob.
     bindS (liftE (py_item blob ''seatId'')) (\<lambda>seat_id.
     bindS (liftE (py_item blob ''matchId'')) (\<lambda>match_id.
     bindS (liftE (bindE (py_item blob ''mulliganedHands'') grp_ids)) (\<lambda>mulliganed_hands.
     bindS (liftE (py_item blob ''eventId'')) (\<lambda>event_name.
     bindS (liftE (py_item blob ''teamId'')) (\<lambda>team1.
     bindS (liftE (py_item blob ''startingTeamId'')) (\<lambda>starting.
     bindS (liftE (py_item blob ''teamId'')) (\<lambda>team2.
     bindS (liftE (py_item blob ''winningTeamId'')) (\<lambda>winning.
     bindS (liftE (py_item blob ''winningType'')) (\<lambda>win_type.
     bindS (liftE (py_item blob ''winningReason'')) (\<lambda>game_end_reason.
     bindS (liftE (py_item blob ''turnCount'')) (\<lambda>turn_count.
     bindS (liftE (py_item blob ''secondsCount'')) (\<lambda>duration.
       send_game_end ev seat_id match_id mulliganed_hands event_name
         (py_eq team1 starting) (py_eq team2 winning) win_type game_end_reason
         turn_count duration)))))))))))))"

definition user_info :: "follower \<Rightarrow> json \<Rightarrow> json" where
  "user_info s screen_name = JObj [
     (''player_id'', cur_user s),
     (''screen_name'', screen_name),
     (''raw_time'', JStr (last_raw_time s))]"

definition handle_login :: "env \<Rightarrow> json \<Rightarrow> unit act" where
  "handle_login ev json_obj =
     bindS (modify clear_game_data) (\<lambda>u.
     bindS (liftE (py_path json_obj [''params'', ''payloadObject'', ''playerId''])) (\<lambda>player_id.
     bindS (modify (\<lambda>s. s\<lparr>cur_user := player_id\<rparr>)) (\<lambda>u.
     bindS (liftE (py_path json_obj [''params'', ''payloadObject'', ''screenName''])) (\<lambda>screen_name.
     bindS (getS (\<lambda>s. user_info s screen_name)) (\<lambda>info.
       send ev ENDPOINT_USER info)))))"

text \<open>\<open>int(x)\<close>\<close>

fun py_int :: "env \<Rightarrow> json \<Rightarrow> error + json" where
  "py_int ev (JInt n) = Inr (JInt n)"
| "py_int ev (JBool b) = Inr (JInt (if b then 1 else 0))"
| "py_int ev (JStr s) = (case int_of_str ev s of None \<Rightarrow> Inl ValueError | Some n \<Rightarrow> Inr (JInt n))"
| "py_int ev _ = Inl TypeError"

text \<open>\<open>s.rsplit(':', 1)\<close> when \<open>s\<close> has a colon.\<close>

definition rsplit1 :: "string \<Rightarrow> (string \<times> string) option" where
  "rsplit1 s =
     (if CHR '':'' \<in> set s
      then Some (rev (tl (dropWhile (\<lambda>c. c \<noteq> CHR '':'') (rev s))),
                 rev (takeWhile (\<lambda>c. c \<noteq> CHR '':'') (rev s)))
      else None)"

text \<open>
  \<open>(user, event_name, other) = x.rsplit(':', 2)\<close>: the unpacking needs three parts, and
  only a string has the method.
\<close>

fun event_name_of :: "json \<Rightarrow> error + json" where
  "event_name_of (JStr s) =
     (case rsplit1 s of
        None \<Rightarrow> Inl ValueError
      | Some (front, other) \<Rightarrow>
          (case rsplit1 front of
             None \<Rightarrow> Inl ValueError
           | Some (user, event_name) \<Rightarrow> Inr (JStr event_name)))"
| "event_name_of _ = Inl AttributeError"

definition handle_draft_log :: "env \<Rightarrow> json \<Rightarrow> unit act" where
  "handle_draft_log ev json_obj =
     bindS (liftE (py_item json_obj ''DraftStatus'')) (\<lambda>status.
       if py_eq status (JStr ''Draft.PickNext'') then
         bindS (modify clear_game_data) (\<lambda>u.
         bindS (liftE (bindE (py_item json_obj ''DraftId'') event_name_of)) (\<lambda>event_name.
         bindS (getS cur_user) (\<lambda>user.
         bindS (\<lambda>s. (time_iso ev s, s)) (\<lambda>tm.
         bindS (liftE (bindE (py_item json_obj ''PackNumber'') (py_int ev))) (\<lambda>pack_number.
         bindS (liftE (bindE (py_item json_obj ''PickNumber'') (py_int ev))) (\<lambda>pick_number.
         bindS (liftE (bindE (py_item json_obj ''DraftPack'') (\<lambda>dp.
                       bindE (py_iter dp) (mapE (py_int ev))))) (\<lambda>card_ids.
           send ev ENDPOINT_DRAFT_PACK (JObj [
             (''player_id'', user),
             (''event_name'', event_name),
             (''time'', tm),
             (''pack_number'', pack_number),
             (''pick_number'', pick_number),
             (''card_ids'', JArr card_ids)]))))))))
       else liftE (Inr ()))"

definition handle_draft_pick :: "env \<Rightarrow> json \<Rightarrow> unit act" where
  "handle_draft_pick ev json_obj =
     bindS (modify clear_game_data) (\<lambda>u.
     bindS (liftE (py_item json_obj ''params'')) (\<lambda>inner_obj.
     bindS (liftE (bindE (py_item inner_obj ''draftId'') event_name_of)) (\<lambda>event_name.
     bindS (getS cur_user) (\<lambda>user.
     bindS (\<lambda>s. (time_iso ev s, s)) (\<lambda>tm.
     bindS (liftE (bindE (py_item inner_obj ''packNumber'') (py_int ev))) (\<lambda>pack_number.
     bindS (liftE (bindE (py_item inner_obj ''pickNumber'') (py_int ev))) (\<lambda>pick_number.
     bindS (liftE (bindE (py_item inner_obj ''cardId'') (py_int ev))) (\<lambda>card_id.
       send ev ENDPOINT_DRAFT_PICK (JObj [
         (''player_id'', user),
         (''event_name'', event_name),
         (''time'', tm),
         (''pack_number'', pack_number),
         (''pick_number'', pick_number),
         (''card_id'', card_id)])))))))))"

definition handle_human_draft_pick :: "env \<Rightarrow> json \<Rightarrow> unit act" where
  "handle_human_draft_pick ev json_obj =
     bindS (modify clear_game_data) (\<lambda>u.
     bindS (liftE (py_item json_obj ''params'')) (\<lambda>inner_obj.
     bindS (getS cur_user) (\<lambda>user.
     bindS (\<lambda>s. (time_iso ev s, s)) (\<lambda>tm.
     bindS (liftE (py_item inner_obj ''draftId'')) (\<lambda>draft_id.
     bindS (liftE (bindE (py_item inner_obj ''packNumber'') (py_int ev))) (\<lambda>pack_number.
     bindS (liftE (bindE (py_item inner_obj ''pickNumber'') (py_int ev))) (\<lambda>pick_number.
     bindS (liftE (bindE (py_item inner_obj ''cardId'') (py_int ev))) (\<lambda>card_id.
       send ev ENDPOINT_HUMAN_DRAFT_PICK (JObj [
         (''player_id'', user),
         (''time'', tm),
         (''draft_id'', draft_id),
         (''pack_number'', pack_number),
         (''pick_number'', pick_number),
         (''card_id'', card_id)])))))))))"

text \<open>\<open>json.loads(x)\<close>; a \<open>JSONDecodeError\<close> is a \<open>ValueError\<close>.\<close>

fun py_loads :: "env \<Rightarrow> json \<Rightarrow> error + json" where
  "py_loads ev (JStr s) = (case json_loads ev s of None \<Rightarrow> Inl ValueError | Some j \<Rightarrow> Inr j)"
| "py_loads ev _ = Inl TypeError"

text \<open>
  \<open>[d['Id'] for d in cards for i in range(d['Quantity'])]\<close>: \<open>d['Id']\<close> is evaluated
  once per round, so not at all for a quantity of 0.
\<close>

definition expand_v1 :: "json \<Rightarrow> error + json list" where
  "expand_v1 d =
     bindE (py_item d ''Quantity'') (\<lambda>q.
     bindE (py_range q) (\<lambda>n.
       if n = 0 then Inr [] else bindE (py_item d ''Id'') (\<lambda>i. Inr (replicate n i))))"

definition card_ids_v1 :: "json \<Rightarrow> error + json" where
  "card_ids_v1 cards =
     bindE (py_iter cards) (\<lambda>ds. bindE (mapE expand_v1 ds) (\<lambda>xs. Inr (JArr (concat xs))))"

definition handle_deck_submission :: "env \<Rightarrow> json \<Rightarrow> unit act" where
  "handle_deck_submission ev json_obj =
     bindS (modify clear_game_data) (\<lambda>u.
     bindS (liftE (py_item json_obj ''params'')) (\<lambda>inner_obj.
     bindS (liftE (bindE (py_item inner_obj ''deck'') (py_loads ev))) (\<lambda>deck_info.
     bindS (getS cur_user) (\<lambda>user.
     bindS (liftE (py_item inner_obj ''eventName'')) (\<lambda>event_name.
     bindS (\<lambda>s. (time_iso ev s, s)) (\<lambda>tm.
     bindS (liftE (bindE (py_item deck_info ''mainDeck'') card_ids_v1)) (\<lambda>main.
     bindS (liftE (bindE (py_item deck_info ''sideboard'') card_ids_v1)) (\<lambda>side.
       send ev ENDPOINT_DECK_SUBMISSION (JObj [
         (''player_id'', user),
         (''event_name'', event_name),
         (''time'', tm),
         (''maindeck_card_ids'', main),
         (''sideboard_card_ids'', side),
         (''is_during_match'', JBool False)])))))))))"

definition card_ids_v3 :: "json \<Rightarrow> error + json" where
  "card_ids_v3 decklist = bindE (get_card_ids_from_decklist_v3 decklist) (\<lambda>r. Inr (JArr r))"

definition handle_deck_submission_v3 :: "env \<Rightarrow> json \<Rightarrow> unit act" where
  "handle_deck_submission_v3 ev json_obj =
     bindS (modify clear_game_data) (\<lambda>u.
     bindS (liftE (py_item json_obj ''params'')) (\<lambda>inner_obj.
     bindS (liftE (bindE (py_item inner_obj ''deck'') (py_loads ev))) (\<lambda>deck_info.
     bindS (getS cur_user) (\<lambda>user.
     bindS (liftE (py_item inner_obj ''eventName'')) (\<lambda>event_name.
     bindS (\<lambda>s. (time_iso ev s, s)) (\<lambda>tm.
     bindS (liftE (bindE (py_item deck_info ''mainDeck'') card_ids_v3)) (\<lambda>main.
     bindS (liftE (bindE (py_item deck_info ''sideboard'') card_ids_v3)) (\<lambda>side.
     bindS (liftE (py_get deck_info ''companionGRPId'' JNull)) (\<lambda>companion.
       send ev ENDPOINT_DECK_SUBMISSION (JObj [
         (''player_id'', user),
         (''event_name'', event_name),
         (''time'', tm),
         (''maindeck_card_ids'', main),
         (''sideboard_card_ids'', side),
         (''is_during_match'', JBool False),
         (''companion'', companion)]))))))))))"

fun join_dash :: "string list \<Rightarrow> string" where
  "join_dash [] = []"
| "join_dash [x] = x"
| "join_dash (x # y # ys) = x @ ''-'' @ join_dash (y # ys)"

definition get_rank_string :: "env \<Rightarrow> json \<Rightarrow> json \<Rightarrow> json \<Rightarrow> json \<Rightarrow> json \<Rightarrow> string" where
  "get_rank_string ev rank_class level percentile place step =
     join_dash (map (str_of ev) [rank_class, level, percentile, place, step])"

definition handle_self_rank_info :: "env \<Rightarrow> json \<Rightarrow> unit act" where
  "handle_self_rank_info ev json_obj =
     bindS (liftE (py_get json_obj ''limitedClass'' JNull)) (\<lambda>l1.
     bindS (liftE (py_get json_obj ''limitedLevel'' JNull)) (\<lambda>l2.
     bindS (liftE (py_get json_obj ''limitedPercentile'' JNull)) (\<lambda>l3.
     bindS (liftE (py_get json_obj ''limitedLeaderboardPlace'' JNull)) (\<lambda>l4.
     bindS (liftE (py_get json_obj ''limitedStep'' JNull)) (\<lambda>l5.
     bindS (modify (\<lambda>s. s\<lparr>cur_limited_level := Some (get_rank_string ev l1 l2 l3 l4 l5)\<rparr>)) (\<lambda>u.
     bindS (liftE (py_get json_obj ''constructedClass'' JNull)) (\<lambda>c1.
     bindS (liftE (py_get json_obj ''constructedLevel'' JNull)) (\<lambda>c2.
     bindS (liftE (py_get json_obj ''constructedPercentile'' JNull)) (\<lambda>c3.
     bindS (liftE (py_get json_obj ''constructedLeaderboardPlace'' JNull)) (\<lambda>c4.
     bindS (liftE (py_get json_obj ''constructedStep'' JNull)) (\<lambda>c5.
     bindS (modify (\<lambda>s. s\<lparr>cur_constructed_level := Some (get_rank_string ev c1 c2 c3 c4 c5)\<rparr>)) (\<lambda>u.
     bindS (getS cur_user) (\<lambda>user.
     bindS (liftE (py_get json_obj ''playerId'' user)) (\<lambda>player_id.
       modify (\<lambda>s. s\<lparr>cur_user := player_id\<rparr>)))))))))))))))"

definition handle_match_created :: "env \<Rightarrow> json \<Rightarrow> unit act" where
  "handle_match_created ev json_obj =
     bindS (modify clear_game_data) (\<lambda>u.
     bindS (liftE (py_get json_obj ''opponentRankingClass'' JNull)) (\<lambda>o1.
     bindS (liftE (py_get json_obj ''opponentRankingTier'' JNull)) (\<lambda>o2.
     bindS (liftE (py_get json_obj ''opponentMythicPercentile'' JNull)) (\<lambda>o3.
     bindS (liftE (py_get json_obj ''opponentMythicLeaderboardPlace'' JNull)) (\<lambda>o4.
     bindS (modify (\<lambda>s. s\<lparr>cur_opponent_level := Some (get_rank_string ev o1 o2 o3 o4 JNull)\<rparr>)) (\<lambda>u.
     bindS (liftE (py_get json_obj ''matchId'' JNull)) (\<lambda>match_id.
       modify (\<lambda>s. s\<lparr>cur_opponent_match_id := match_id\<rparr>))))))))"

definition handle_collection :: "env \<Rightarrow> json \<Rightarrow> unit act" where
  "handle_collection ev json_obj =
     bindS (getS cur_user) (\<lambda>user.
     bindS (\<lambda>s. (time_iso ev s, s)) (\<lambda>tm.
     bindS (liftE (py_len json_obj)) (\<lambda>n.
       send ev ENDPOINT_COLLECTION (JObj [
         (''player_id'', user),
         (''time'', tm),
         (''card_counts'', json_obj)]))))"

subsection \<open>The payload extractor and the dispatcher\<close>

fun json_value_matches :: "string \<Rightarrow> string list \<Rightarrow> json \<Rightarrow> error + bool" where
  "json_value_matches expectation [] blob = Inr (py_eq blob (JStr expectation))"
| "json_value_matches expectation (p # path) blob =
     bindE (py_in p blob) (\<lambda>b.
       if b then bindE (py_item blob p) (\<lambda>v. json_value_matches expectation path v)
       else Inr False)"

text \<open>
  \<open>__extract_payload\<close>: whatever the \<open>try\<close> block raises (a request that is not a string,
  a request that does not decode) is passed over, and the blob itself is returned.
\<close>

definition extract_payload :: "env \<Rightarrow> json \<Rightarrow> error + json" where
  "extract_payload ev blob =
     bindE (py_in ''id'' blob) (\<lambda>has_id.
       if \<not> has_id then Inr blob
       else bindE (py_in ''payload'' blob) (\<lambda>has_payload.
         if has_payload then py_item blob ''payload''
         else bindE (py_in ''request'' blob) (\<lambda>has_request.
           if has_request then
             (case py_item blob ''request'' of
                Inr (JStr r) \<Rightarrow>
                  (case raw_decode ev r 0 of Some (json_obj, e) \<Rightarrow> Inr json_obj | None \<Rightarrow> Inr blob)
              | _ \<Rightarrow> Inr blob)
           else Inr blob)))"

text \<open>The first part of \<open>__maybe_get_utc_timestamp\<close>: where the timestamp is looked for.\<close>

definition find_timestamp :: "json \<Rightarrow> error + json" where
  "find_timestamp blob =
     bindE (py_in ''timestamp'' blob) (\<lambda>b1.
       if b1 then py_item blob ''timestamp''
       else
         bindE (py_get blob ''payloadObject'' (JObj [])) (\<lambda>po.
         bindE (py_in ''timestamp'' po) (\<lambda>b2.
           if b2 then py_path blob [''payloadObject'', ''timestamp'']
           else
             bindE (py_get blob ''params'' (JObj [])) (\<lambda>params.
             bindE (py_get params ''payloadObject'' (JObj [])) (\<lambda>ppo.
             bindE (py_in ''timestamp'' ppo) (\<lambda>b3.
               if b3 then py_path blob [''params'', ''payloadObject'', ''timestamp'']
               else Inr JNull))))))"

definition maybe_get_utc_timestamp :: "env \<Rightarrow> json \<Rightarrow> error + datetime option" where
  "maybe_get_utc_timestamp ev blob =
     bindE (find_timestamp blob) (\<lambda>timestamp.
       if timestamp = JNull then Inr None
       else (case utc_of_timestamp ev timestamp of
               None \<Rightarrow> Inl ValueError
             | Some t \<Rightarrow> Inr (Some t)))"

text \<open>\<open>JSON_START_REGEX.search\<close>: the index of the first bracket or brace.\<close>

definition json_start :: "string \<Rightarrow> nat option" where
  "json_start full_log =
     (let n = length (takeWhile (\<lambda>c. c \<noteq> CHR ''['' \<and> c \<noteq> CHR ''{'') full_log)
      in if n < length full_log then Some n else None)"

fun is_dict :: "json \<Rightarrow> bool" where
  "is_dict (JObj kvs) = True"
| "is_dict _ = False"

text \<open>The \<open>if\<close>/\<open>elif\<close> chain of \<open>__handle_blob\<close>; every test may raise.\<close>

definition dispatch :: "env \<Rightarrow> string \<Rightarrow> json \<Rightarrow> unit act" where
  "dispatch ev full_log json_obj =
     bindS (liftE (json_value_matches ''Client.Connected'' [''params'', ''messageName''] json_obj)) (\<lambda>b1.
     if b1 then handle_login ev json_obj else
     bindS (liftE (json_value_matches ''DuelScene.GameStop'' [''params'', ''messageName''] json_obj)) (\<lambda>b2.
     if b2 then handle_game_end ev json_obj else
     bindS (liftE (py_in ''DraftStatus'' json_obj)) (\<lambda>b3.
     if b3 then handle_draft_log ev json_obj else
     bindS (liftE (json_value_matches ''Draft.MakePick'' [''method''] json_obj)) (\<lambda>b4.
     if b4 then handle_draft_pick ev json_obj else
     bindS (liftE (json_value_matches ''Draft.MakeHumanDraftPick'' [''method''] json_obj)) (\<lambda>b5.
     if b5 then handle_human_draft_pick ev json_obj else
     bindS (liftE (json_value_matches ''Event.DeckSubmit'' [''method''] json_obj)) (\<lambda>b6.
     if b6 then handle_deck_submission ev json_obj else
     bindS (liftE (json_value_matches ''Event.DeckSubmitV3'' [''method''] json_obj)) (\<lambda>b7.
     if b7 then handle_deck_submission_v3 ev json_obj else
     bindS (liftE (json_value_matches ''DoneWithMatches'' [''CurrentEventState''] json_obj)) (\<lambda>b8.
     if b8 then handle_event_completion ev json_obj else
     bindS (liftE (py_in ''matchGameRoomStateChangedEvent'' json_obj)) (\<lambda>b9.
     if b9 then handle_match_started json_obj else
     bindS (liftE (bindE (py_in ''greToClientEvent'' json_obj) (\<lambda>g.
              if g then bindE (py_item json_obj ''greToClientEvent'')
                          (py_in ''greToClientMessages'')
              else Inr False))) (\<lambda>b10.
     if b10 then
       bindS (liftE (bindE (py_path json_obj [''greToClientEvent'', ''greToClientMessages''])
                py_iter)) (\<lambda>messages.
         forS (handle_gre_to_client_message ev) messages)
     else
     bindS (liftE (py_in ''limitedStep'' json_obj)) (\<lambda>b11.
     if b11 then handle_self_rank_info ev json_obj else
     bindS (liftE (py_in ''opponentRankingClass'' json_obj)) (\<lambda>b12.
     if b12 then handle_match_created ev json_obj else
     bindS (liftE (if is_infix '' PlayerInventory.GetPlayerCardsV3 '' full_log
                   then bindE (py_in ''method'' json_obj) (\<lambda>m. Inr (\<not> m))
                   else Inr False)) (\<lambda>b13.
     if b13 then handle_collection ev json_obj else liftE (Inr ()))))))))))))))"

definition handle_blob :: "env \<Rightarrow> string \<Rightarrow> unit act" where
  "handle_blob ev full_log s =
     (case json_start full_log of
        None \<Rightarrow> (Inr (), s)
      | Some i \<Rightarrow>
         (case raw_decode ev full_log i of
            None \<Rightarrow> (Inr (), s)
          | Some (decoded, e) \<Rightarrow>
             (case extract_payload ev decoded of
                Inl err \<Rightarrow> (Inl err, s)
              | Inr json_obj \<Rightarrow>
                  if \<not> is_dict json_obj then (Inr (), s)
                  else
                    (let s1 = (case maybe_get_utc_timestamp ev json_obj of
                                 Inr (Some t) \<Rightarrow> s\<lparr>last_utc_time := t\<rparr>
                               | _ \<Rightarrow> s)
                     in dispatch ev full_log json_obj s1))))"

subsection \<open>The segmenter\<close>

definition is_digit :: "char \<Rightarrow> bool" where
  "is_digit c = (c \<in> set ''0123456789'')"

definition starts_with :: "string \<Rightarrow> string \<Rightarrow> bool" where
  "starts_with p s = (take (length p) s = p)"

text \<open>
  \<open>LOG_START_REGEX_UNTIMED.match(line)\<close>: where the match ends. The pattern is
  \<^verbatim>\<open>^\[(UnityCrossThreadLogger|Client GRE)\]\<close>.
\<close>

definition log_start_untimed :: "string \<Rightarrow> nat option" where
  "log_start_untimed line =
     (if starts_with ''[UnityCrossThreadLogger]'' line
        then Some (length ''[UnityCrossThreadLogger]'')
      else if starts_with ''[Client GRE]'' line then Some (length ''[Client GRE]'')
      else None)"

text \<open>
  \<open>LOG_START_REGEX_TIMED.match(line)\<close>: group 2 and where the match ends. After the
  marker the pattern is \<^verbatim>\<open>([\d:/ -]+(AM|PM)?)\<close>: the longest run of the class, which
  the optional suffix cannot shorten.
\<close>

definition is_time_char :: "char \<Rightarrow> bool" where
  "is_time_char c = (is_digit c \<or> c \<in> set '':/ -'')"

definition log_start_timed :: "string \<Rightarrow> (string \<times> nat) option" where
  "log_start_timed line =
     (case log_start_untimed line of
        None \<Rightarrow> None
      | Some n \<Rightarrow>
         (let rest = drop n line;
              run = takeWhile is_time_char rest;
              after = dropWhile is_time_char rest;
              suffix = (if starts_with ''AM'' after then ''AM''
                        else if starts_with ''PM'' after then ''PM'' else [])
          in if run = [] then None
             else Some (run @ suffix, n + length run + length suffix)))"

text \<open>
  \<open>TIMESTAMP_REGEX.match(line)\<close>: group 1. The pattern is
  \<^verbatim>\<open>^([\d/.-]+[ T][\d]+:[\d]+:[\d]+( AM| PM)?)\<close>; each run is followed by a
  character outside its class, so the longest run is the only one that can match.
\<close>

definition is_date_char :: "char \<Rightarrow> bool" where
  "is_date_char c = (is_digit c \<or> c \<in> set ''/.-'')"

text \<open>\<open>[\d]+\<close> and then the character \<open>sep\<close>: the digits and the rest after \<open>sep\<close>.\<close>

definition digits_then :: "char \<Rightarrow> string \<Rightarrow> (string \<times> string) option" where
  "digits_then sep s =
     (let ds = takeWhile is_digit s in
      if ds = [] then None
      else (case dropWhile is_digit s of
              [] \<Rightarrow> None
            | c # r \<Rightarrow> if c = sep then Some (ds, r) else None))"

definition timestamp_match :: "string \<Rightarrow> string option" where
  "timestamp_match line =
     (let date = takeWhile is_date_char line in
      if date = [] then None
      else (case dropWhile is_date_char line of
              [] \<Rightarrow> None
            | sep # r1 \<Rightarrow>
               if sep \<noteq> CHR '' '' \<and> sep \<noteq> CHR ''T'' then None
               else (case digits_then CHR '':'' r1 of
                       None \<Rightarrow> None
                     | Some (hh, r2) \<Rightarrow>
                        (case digits_then CHR '':'' r2 of
                           None \<Rightarrow> None
                         | Some (mm, r3) \<Rightarrow>
                            (let ss = takeWhile is_digit r3;
                                 r4 = dropWhile is_digit r3;
                                 suffix = (if starts_with '' AM'' r4 then '' AM''
                                           else if starts_with '' PM'' r4 then '' PM''
                                           else [])
                             in if ss = [] then None
                                else Some (date @ [sep] @ hh @ '':'' @ mm @ '':'' @ ss
                                             @ suffix))))))"

definition TIME_FORMATS :: "string list" where
  "TIME_FORMATS = [
     ''%Y-%m-%d %I:%M:%S %p'',
     ''%Y-%m-%d %H:%M:%S'',
     ''%m/%d/%Y %I:%M:%S %p'',
     ''%m/%d/%Y %H:%M:%S'',
     ''%Y/%m/%d %I:%M:%S %p'',
     ''%Y/%m/%d %H:%M:%S'']"

fun try_formats :: "env \<Rightarrow> string \<Rightarrow> string list \<Rightarrow> error + datetime" where
  "try_formats ev time_str [] = Inl ValueError"
| "try_formats ev time_str (possible_format # rest) =
     (case strptime ev time_str possible_format of
        Some t \<Rightarrow> Inr t
      | None \<Rightarrow> try_formats ev time_str rest)"

definition extract_time :: "env \<Rightarrow> string \<Rightarrow> error + datetime" where
  "extract_time ev time_str = try_formats ev time_str TIME_FORMATS"

definition maybe_handle_account_info :: "env \<Rightarrow> string \<Rightarrow> unit act" where
  "maybe_handle_account_info ev line =
     (case account_info_match ev line of
        None \<Rightarrow> liftE (Inr ())
      | Some (screen_name, account_id) \<Rightarrow>
          bindS (modify (\<lambda>s. s\<lparr>cur_user := JStr account_id\<rparr>)) (\<lambda>u.
          bindS (getS (\<lambda>s. user_info s (JStr screen_name))) (\<lambda>info.
            send ev ENDPOINT_USER info)))"

text \<open>
  \<open>__handle_complete_log_entry\<close>: the \<open>try\<close> around \<open>__handle_blob\<close> catches every
  \<open>Exception\<close> and logs it, so the method itself does not raise.
\<close>

definition handle_complete_log_entry :: "env \<Rightarrow> follower \<Rightarrow> follower" where
  "handle_complete_log_entry ev s =
     (if length (buffer s) = 0 then s
      else if cur_log_time s = None then s\<lparr>buffer := []\<rparr>
      else
        (let full_log = concat (buffer s) in
         case handle_blob ev full_log s of
           (Inl e, s1) \<Rightarrow> s1\<lparr>logged := logged s1 @ [(e, full_log)], buffer := []\<rparr>
         | (Inr u, s1) \<Rightarrow> s1\<lparr>buffer := []\<rparr>))"

text \<open>\<open>self.last_raw_time = g; self.cur_log_time = extract_time(self.last_raw_time)\<close>\<close>

definition set_time :: "env \<Rightarrow> string \<Rightarrow> unit act" where
  "set_time ev g =
     bindS (modify (\<lambda>s. s\<lparr>last_raw_time := g\<rparr>)) (\<lambda>u.
     bindS (getS last_raw_time) (\<lambda>raw.
     bindS (liftE (extract_time ev raw)) (\<lambda>t.
       modify (\<lambda>s. s\<lparr>cur_log_time := Some t\<rparr>))))"

definition append_line :: "env \<Rightarrow> string \<Rightarrow> unit act" where
  "append_line ev line =
     bindS (maybe_handle_account_info ev line) (\<lambda>u.
     bindS (case timestamp_match line of
              None \<Rightarrow> liftE (Inr ())
            | Some g \<Rightarrow> set_time ev g) (\<lambda>u.
       (case log_start_untimed line of
          Some match_end \<Rightarrow>
            bindS (modify (handle_complete_log_entry ev)) (\<lambda>u.
              (case log_start_timed line of
                 Some (g, timed_end) \<Rightarrow>
                   bindS (set_time ev g) (\<lambda>u.
                     modify (\<lambda>s. s\<lparr>buffer := buffer s @ [drop timed_end line]\<rparr>))
               | None \<Rightarrow> modify (\<lambda>s. s\<lparr>buffer := buffer s @ [drop match_end line]\<rparr>)))
        | None \<Rightarrow> modify (\<lambda>s. s\<lparr>buffer := buffer s @ [line]\<rparr>))))"

text \<open>
  One pass of \<open>parse_log\<close> over a file that exists and holds \<open>lines\<close>: every line goes to
  \<open>__append_line\<close>, and at the end of the file the open entry is closed. An exception of
  \<open>__append_line\<close> is not caught by \<open>parse_log\<close>.
\<close>

definition read_lines :: "env \<Rightarrow> string list \<Rightarrow> unit act" where
  "read_lines ev lines =
     bindS (forS (append_line ev) lines) (\<lambda>u. modify (handle_complete_log_entry ev))"

subsection \<open>A concrete environment for examples\<close>

text \<open>
  A login message as the game writes it, and the value the JSON decoder gives for it.
\<close>

definition login_text :: string where
  \<open>login_text =
     ''{"params":{"messageName":"Client.Connected","payloadObject":{"playerId":"P1","screenName":"Ann"}}}''\<close>

definition login_json :: json where
  "login_json = JObj [(''params'', JObj [
     (''messageName'', JStr ''Client.Connected''),
     (''payloadObject'', JObj [(''playerId'', JStr ''P1''), (''screenName'', JStr ''Ann'')])])]"

text \<open>
  A deck submission whose main deck is an array of odd length. The deck is a JSON
  document inside a string, so its quotes are escaped in the log.
\<close>

definition v3_deck_text :: string where
  \<open>v3_deck_text = ''{"mainDeck":[70001,2,70002],"sideboard":[]}''\<close>

definition v3_deck_json :: json where
  "v3_deck_json = JObj [
     (''mainDeck'', JArr [JInt 70001, JInt 2, JInt 70002]),
     (''sideboard'', JArr [])]"

definition esc :: string where
  "esc = [CHR 0x5C, CHR 0x22]"

definition v3_text :: string where
  \<open>v3_text = ''{"method":"Event.DeckSubmitV3","params":{"eventName":"QuickDraft","deck":"{''
     @ esc @ ''mainDeck'' @ esc @ '':[70001,2,70002],'' @ esc @ ''sideboard'' @ esc
     @ '':[]}"}}''\<close>

definition v3_fields :: "(string \<times> json) list" where
  "v3_fields = [
     (''method'', JStr ''Event.DeckSubmitV3''),
     (''params'', JObj [(''eventName'', JStr ''QuickDraft''), (''deck'', JStr v3_deck_text)])]"

text \<open>A message in an envelope whose payload is an array.\<close>

definition envelope_text :: string where
  \<open>envelope_text = ''{"id":7,"payload":[1,2]}''\<close>

definition envelope_fields :: "(string \<times> json) list" where
  "envelope_fields = [(''id'', JInt 7), (''payload'', JArr [JInt 1, JInt 2])]"

text \<open>
  GRE game-state messages: three cards owned by seat 2; the hand of seat 2 with two of
  them; the hand of seat 2 with one of them and an instance that has not been seen.
\<close>

definition card_object :: "int \<Rightarrow> int \<Rightarrow> int \<Rightarrow> json" where
  "card_object owner instance_id card_id = JObj [
     (''type'', JStr ''GameObjectType_Card''),
     (''ownerSeatId'', JInt owner),
     (''instanceId'', JInt instance_id),
     (''overlayGrpId'', JInt card_id)]"

definition hand_zone :: "int \<Rightarrow> int list \<Rightarrow> json" where
  "hand_zone owner ids = JObj [
     (''type'', JStr ''ZoneType_Hand''),
     (''ownerSeatId'', JInt owner),
     (''objectInstanceIds'', JArr (map JInt ids))]"

definition objects_msg :: json where
  "objects_msg = JObj [
     (''type'', JStr ''GREMessageType_GameStateMessage''),
     (''gameStateMessage'', JObj [
        (''gameObjects'', JArr [
           card_object 2 101 70001, card_object 2 102 70002, card_object 2 103 70003])])]"

definition hand_msg :: json where
  "hand_msg = JObj [
     (''type'', JStr ''GREMessageType_GameStateMessage''),
     (''gameStateMessage'', JObj [(''zones'', JArr [hand_zone 2 [103, 101]])])]"

definition unknown_hand_msg :: json where
  "unknown_hand_msg = JObj [
     (''type'', JStr ''GREMessageType_GameStateMessage''),
     (''gameStateMessage'', JObj [(''zones'', JArr [hand_zone 2 [103, 999]])])]"

text \<open>
  The end of a game: the results are one of per-game scope and, more recent, one of match
  scope; seat 1 wins. The message comes with the system seat id 1, or with none.
\<close>

definition game_result :: "string \<Rightarrow> json" where
  "game_result scope = JObj [
     (''scope'', JStr scope),
     (''winningTeamId'', JInt 1),
     (''result'', JStr ''ResultType_WinLoss''),
     (''reason'', JStr ''ResultReason_Game'')]"

definition over_info :: json where
  "over_info = JObj [
     (''matchID'', JStr ''M1''),
     (''stage'', JStr ''GameStage_GameOver''),
     (''results'', JArr [game_result ''MatchScope_Game'', game_result ''MatchScope_Match''])]"

definition over_state :: json where
  "over_state = JObj [
     (''gameInfo'', over_info),
     (''turnInfo'', JObj [(''turnNumber'', JInt 9)])]"

definition gameover_msg :: json where
  "gameover_msg = JObj [
     (''type'', JStr ''GREMessageType_GameStateMessage''),
     (''systemSeatIds'', JArr [JInt 1]),
     (''gameStateMessage'', over_state)]"

definition gameover_noseat_msg :: json where
  "gameover_noseat_msg = JObj [
     (''type'', JStr ''GREMessageType_GameStateMessage''),
     (''gameStateMessage'', over_state)]"

definition gameover_noseat_fields :: "(string \<times> json) list" where
  "gameover_noseat_fields =
     [(''greToClientEvent'', JObj [(''greToClientMessages'', JArr [gameover_noseat_msg])])]"

definition gameover_noseat_text :: string where
  \<open>gameover_noseat_text = ''{"greToClientEvent":{"greToClientMessages":[{"type":"GREMessageType_GameStateMessage","gameStateMessage":{"gameInfo":{"matchID":"M1","stage":"GameStage_GameOver","results":[{"scope":"MatchScope_Game","winningTeamId":1,"result":"ResultType_WinLoss","reason":"ResultReason_Game"},{"scope":"MatchScope_Match","winningTeamId":1,"result":"ResultType_WinLoss","reason":"ResultReason_Game"}]},"turnInfo":{"turnNumber":9}}}]}}''\<close>



text \<open>The lines of the log that carry the two messages: an entry marker without a time.\<close>

definition login_line :: string where
  "login_line = ''[UnityCrossThreadLogger]'' @ login_text"

definition v3_line :: string where
  "v3_line = ''[UnityCrossThreadLogger]'' @ v3_text"

text \<open>The decoder on the example texts; every other text is taken not to decode.\<close>

definition demo_documents :: "(string \<times> json) list" where
  "demo_documents = [
     (login_text, login_json),
     (v3_text, JObj v3_fields),
     (v3_deck_text, v3_deck_json),
     (envelope_text, JObj envelope_fields),
     (gameover_noseat_text, JObj gameover_noseat_fields)]"

definition demo_env :: env where
  "demo_env = \<lparr>
     raw_decode = (\<lambda>s i. case map_of demo_documents (drop i s) of
                            None \<Rightarrow> None | Some j \<Rightarrow> Some (j, length s)),
     json_loads = map_of demo_documents,
     strptime = (\<lambda>s fmt. None),
     isoformat = (\<lambda>t. ''1970-01-01T00:00:00''),
     int_of_str = (\<lambda>s. None),
     str_of = (\<lambda>j. ''None''),
     account_info_match = (\<lambda>line. None),
     utc_of_timestamp = (\<lambda>j. None),
     set_order = (\<lambda>xs. xs) \<rparr>"

subsection \<open>Notions used in the statements\<close>

text \<open>
  A deck list given as pairs of a card identifier and a count: the flat array the game
  writes for it, and the cards it stands for.
\<close>

definition pairs_flat :: "(json \<times> int) list \<Rightarrow> json list" where
  "pairs_flat ps = concat (map (\<lambda>p. [fst p, JInt (snd p)]) ps)"

definition expand_pairs :: "(json \<times> int) list \<Rightarrow> json list" where
  "expand_pairs ps = concat (map (\<lambda>p. replicate (nat (snd p)) (fst p)) ps)"

text \<open>
  The open entry of \<open>s\<close> is a deck submission (version 3): it has a time, its text
  decodes, the payload is the object with the fields \<open>kvs\<close>, the dispatcher sends it to
  \<open>__handle_deck_submission_v3\<close>, and the deck inside decodes to \<open>deck_info\<close>.
\<close>

definition v3_entry :: "env \<Rightarrow> follower \<Rightarrow> (string \<times> json) list \<Rightarrow> json \<Rightarrow> bool" where
  "v3_entry ev s kvs deck_info =
     (buffer s \<noteq> [] \<and> cur_log_time s \<noteq> None
      \<and> (case json_start (concat (buffer s)) of
            None \<Rightarrow> False
          | Some i \<Rightarrow>
             (case raw_decode ev (concat (buffer s)) i of
                None \<Rightarrow> False
              | Some (d, e) \<Rightarrow> extract_payload ev d = Inr (JObj kvs)))
      \<and> json_value_matches ''Client.Connected'' [''params'', ''messageName''] (JObj kvs) = Inr False
      \<and> json_value_matches ''DuelScene.GameStop'' [''params'', ''messageName''] (JObj kvs) = Inr False
      \<and> map_of kvs ''DraftStatus'' = None
      \<and> map_of kvs ''method'' = Some (JStr ''Event.DeckSubmitV3'')
      \<and> (case py_path (JObj kvs) [''params'', ''deck''] of
            Inr (JStr d) \<Rightarrow> json_loads ev d = Some deck_info
          | _ \<Rightarrow> False)
      \<and> (case py_path (JObj kvs) [''params'', ''eventName''] of Inr en \<Rightarrow> True | Inl e \<Rightarrow> False))"

text \<open>The aggregator fields that \<open>__clear_game_data\<close> resets are all empty or unset.\<close>

definition agg_cleared :: "follower \<Rightarrow> bool" where
  "agg_cleared s = (objects_by_owner s = [] \<and> opening_hand_count_by_seat s = []
     \<and> opening_hand s = [] \<and> drawn_hands s = [] \<and> starting_team_id s = JNull)"

text \<open>A result of per-game scope, as the scan of \<open>results\<close> tests it.\<close>

definition per_game :: "json \<Rightarrow> bool" where
  "per_game r = (py_get r ''scope'' JNull = Inr (JStr ''MatchScope_Game''))"

text \<open>An action never raises \<open>IndexError\<close>.\<close>

definition never_ix :: "'a act \<Rightarrow> bool" where
  "never_ix m = (\<forall>s. fst (m s) \<noteq> Inl IndexError)"



text \<open>
  The open entry of \<open>s\<close> is a GRE event: it has a time, its text decodes, the payload is
  the object with the fields \<open>kvs\<close>, none of the earlier tests of the dispatcher holds,
  and the messages of the event are \<open>msgs\<close>.
\<close>

definition gre_entry :: "env \<Rightarrow> follower \<Rightarrow> (string \<times> json) list \<Rightarrow> json list \<Rightarrow> bool" where
  "gre_entry ev s kvs msgs =
     (buffer s \<noteq> [] \<and> cur_log_time s \<noteq> None
      \<and> (case json_start (concat (buffer s)) of
            None \<Rightarrow> False
          | Some i \<Rightarrow>
             (case raw_decode ev (concat (buffer s)) i of
                None \<Rightarrow> False
              | Some (d, e) \<Rightarrow> extract_payload ev d = Inr (JObj kvs)))
      \<and> json_value_matches ''Client.Connected'' [''params'', ''messageName''] (JObj kvs) = Inr False
      \<and> json_value_matches ''DuelScene.GameStop'' [''params'', ''messageName''] (JObj kvs) = Inr False
      \<and> map_of kvs ''DraftStatus'' = None
      \<and> json_value_matches ''Draft.MakePick'' [''method''] (JObj kvs) = Inr False
      \<and> json_value_matches ''Draft.MakeHumanDraftPick'' [''method''] (JObj kvs) = Inr False
      \<and> json_value_matches ''Event.DeckSubmit'' [''method''] (JObj kvs) = Inr False
      \<and> json_value_matches ''Event.DeckSubmitV3'' [''method''] (JObj kvs) = Inr False
      \<and> json_value_matches ''DoneWithMatches'' [''CurrentEventState''] (JObj kvs) = Inr False
      \<and> map_of kvs ''matchGameRoomStateChangedEvent'' = None
      \<and> py_path (JObj kvs) [''greToClientEvent'', ''greToClientMessages''] = Inr (JArr msgs))"

text \<open>The follower has a current log time.\<close>

definition timed :: "follower \<Rightarrow> bool" where
  "timed s = (cur_log_time s \<noteq> None)"

text \<open>An action keeps a property of the follower, whether it raises or not.\<close>

definition keeps :: "(follower \<Rightarrow> bool) \<Rightarrow> 'a act \<Rightarrow> bool" where
  "keeps P m = (\<forall>s. P s \<longrightarrow> P (snd (m s)))"

text \<open>A property that does not look at the server or at the requests made so far.\<close>

definition world_free :: "(follower \<Rightarrow> bool) \<Rightarrow> bool" where
  "world_free P = (\<forall>s r a p. P s \<longrightarrow> P (s\<lparr>responses := r, attempts := a, published := p\<rparr>))"

section \<open>Properties\<close>

subsection \<open>Basic facts\<close>

lemma py_eq_JStr [simp]: "py_eq x (JStr t) = (x = JStr t)"
  by (cases x) (auto simp: py_eq_def)

lemma py_eq_JStr2 [simp]: "py_eq (JStr t) x = (x = JStr t)"
  by (cases x) (auto simp: py_eq_def)

lemma bindE_simps [simp]:
  "bindE (Inl e) f = Inl e" "bindE (Inr x) f = f x"
  by (simp_all add: bindE_def)

lemma bindS_liftE [simp]:
  "bindS (liftE (Inl e)) f s = (Inl e, s)"
  "bindS (liftE (Inr x)) f s = f x s"
  by (simp_all add: bindS_def liftE_def)

lemma bindS_getS [simp]: "bindS (getS g) f s = f (g s) s"
  by (simp add: bindS_def getS_def)

lemma bindS_modify [simp]: "bindS (modify g) f s = f () (g s)"
  by (simp add: bindS_def modify_def)

lemma bindS_pure [simp]:
  "bindS (\<lambda>s. (g s, s)) f s = (case g s of Inl e \<Rightarrow> (Inl e, s) | Inr x \<Rightarrow> f x s)"
  by (simp add: bindS_def split: sum.splits)

lemma bindE_Inr [simp]: "bindE m Inr = m"
  by (cases m) simp_all

lemma py_path2:
  "py_path j [a, b] = Inr v \<longleftrightarrow> (\<exists>x. py_item j a = Inr x \<and> py_item x b = Inr v)"
  by (cases "py_item j a") simp_all

lemma clear_game_data_sel [simp]:
  "host (clear_game_data s) = host s"
  "token (clear_game_data s) = token s"
  "buffer (clear_game_data s) = buffer s"
  "cur_log_time (clear_game_data s) = cur_log_time s"
  "last_utc_time (clear_game_data s) = last_utc_time s"
  "last_raw_time (clear_game_data s) = last_raw_time s"
  "cur_user (clear_game_data s) = cur_user s"
  "cur_constructed_level (clear_game_data s) = cur_constructed_level s"
  "cur_limited_level (clear_game_data s) = cur_limited_level s"
  "cur_opponent_level (clear_game_data s) = cur_opponent_level s"
  "cur_opponent_match_id (clear_game_data s) = cur_opponent_match_id s"
  "current_match_event_id (clear_game_data s) = current_match_event_id s"
  "cards_in_hand (clear_game_data s) = cards_in_hand s"
  "responses (clear_game_data s) = responses s"
  "attempts (clear_game_data s) = attempts s"
  "published (clear_game_data s) = published s"
  "logged (clear_game_data s) = logged s"
  "starting_team_id (clear_game_data s) = JNull"
  "objects_by_owner (clear_game_data s) = []"
  "opening_hand_count_by_seat (clear_game_data s) = []"
  "opening_hand (clear_game_data s) = []"
  "drawn_hands (clear_game_data s) = []"
  by (simp_all add: clear_game_data_def)

text \<open>The example texts decode as intended.\<close>

lemma demo_decode [simp]:
  "raw_decode demo_env login_text 0 = Some (login_json, length login_text)"
  "raw_decode demo_env v3_text 0 = Some (JObj v3_fields, length v3_text)"
  "json_loads demo_env v3_deck_text = Some v3_deck_json"
  "raw_decode demo_env envelope_text 0 = Some (JObj envelope_fields, length envelope_text)"
  "raw_decode demo_env ''oops'' 0 = None"
  "raw_decode demo_env gameover_noseat_text 0
     = Some (JObj gameover_noseat_fields, length gameover_noseat_text)"
  by (simp_all add: demo_env_def demo_documents_def login_text_def v3_text_def v3_deck_text_def
      esc_def envelope_text_def gameover_noseat_text_def)

lemma demo_starts [simp]:
  "json_start login_text = Some 0" "json_start v3_text = Some 0"
  "json_start envelope_text = Some 0"
  "json_start gameover_noseat_text = Some 0"
  by (simp_all add: json_start_def login_text_def v3_text_def envelope_text_def
      gameover_noseat_text_def)

lemma demo_lines [simp]:
  "timestamp_match login_line = None"
  "log_start_untimed login_line = Some 24"
  "log_start_timed login_line = None"
  "drop 24 login_line = login_text"
  "timestamp_match v3_line = None"
  "log_start_untimed v3_line = Some 24"
  "log_start_timed v3_line = None"
  "drop 24 v3_line = v3_text"
  by (simp_all add: timestamp_match_def log_start_untimed_def log_start_timed_def
      starts_with_def is_date_char_def is_time_char_def
      is_digit_def login_line_def v3_line_def login_text_def v3_text_def)

lemma demo_account [simp]: "account_info_match demo_env l = None"
  by (simp add: demo_env_def)

lemma demo_login_dispatch:
  "dispatch demo_env login_text login_json s = handle_login demo_env login_json s"
  by (simp add: dispatch_def login_json_def)

lemma demo_login_utc: "maybe_get_utc_timestamp demo_env login_json = Inr None"
  by (simp add: maybe_get_utc_timestamp_def find_timestamp_def login_json_def)

lemma demo_login_payload: "extract_payload demo_env login_json = Inr login_json"
  by (simp add: extract_payload_def login_json_def)

lemma demo_login_blob:
  "handle_blob demo_env login_text s = handle_login demo_env login_json s"
proof -
  have i: "is_dict login_json" by (simp add: login_json_def)
  show ?thesis
    by (simp add: handle_blob_def demo_login_payload demo_login_utc demo_login_dispatch i)
qed

lemma demo_login_run:
  "responses s = 200 # rest \<Longrightarrow>
   handle_login demo_env login_json s
      = (Inr (), (clear_game_data s)\<lparr>
          cur_user := JStr ''P1'',
          responses := rest,
          attempts := attempts s @ [(host s @ ''/api/account'', JObj [
             (''player_id'', JStr ''P1''), (''screen_name'', JStr ''Ann''),
             (''raw_time'', JStr (last_raw_time s)),
             (''client_version'', JStr ''0.1.8''), (''token'', JStr (token s)),
             (''utc_time'', JStr ''1970-01-01T00:00:00'')])],
          published := published s @ [(host s @ ''/api/account'', JObj [
             (''player_id'', JStr ''P1''), (''screen_name'', JStr ''Ann''),
             (''raw_time'', JStr (last_raw_time s))])]\<rparr>)"
    by (simp add: handle_login_def login_json_def user_info_def send_def retry_post_def
        retry_post_n_def RETRIES_def numeral_3_eq_3 requests_post_def IS_CODE_FOR_RETRY_def
        ENDPOINT_USER_def CLIENT_VERSION_def demo_env_def)

text \<open>Closing an entry that has a time: what \<open>__handle_blob\<close> returns or raises.\<close>

lemma closed_ok:
  "buffer s \<noteq> [] \<Longrightarrow> cur_log_time s \<noteq> None
   \<Longrightarrow> handle_blob ev (concat (buffer s)) s = (Inr (), s1)
   \<Longrightarrow> handle_complete_log_entry ev s = s1\<lparr>buffer := []\<rparr>"
  by (auto simp add: handle_complete_log_entry_def)

lemma closed_error:
  "buffer s \<noteq> [] \<Longrightarrow> cur_log_time s \<noteq> None
   \<Longrightarrow> handle_blob ev (concat (buffer s)) s = (Inl e, s1)
   \<Longrightarrow> handle_complete_log_entry ev s
       = s1\<lparr>logged := logged s1 @ [(e, concat (buffer s))], buffer := []\<rparr>"
  by (auto simp add: handle_complete_log_entry_def)

lemma key_in: "map_of kvs k = None \<Longrightarrow> (k \<in> fst ` set kvs) = False"
  by (simp add: map_of_eq_None_iff)

lemma jvm_method:
  "map_of kvs ''method'' = Some (JStr m) \<Longrightarrow>
   json_value_matches x [''method''] (JObj kvs) = Inr (m = x)"
  by (auto simp: weak_map_of_SomeI image_iff dest!: map_of_SomeD)

lemma keeps_bindS: "keeps P m \<Longrightarrow> (\<And>x. keeps P (f x)) \<Longrightarrow> keeps P (bindS m f)"
proof -
  assume m: "keeps P m" and f: "\<And>x. keeps P (f x)"
  show ?thesis
    unfolding keeps_def
  proof (intro allI impI)
    fix s assume p: "P s"
    obtain r s1 where ms: "m s = (r, s1)" by (cases "m s")
    with m p have p1: "P s1" by (auto simp: keeps_def)
    show "P (snd (bindS m f s))"
    proof (cases r)
      case (Inl e)
      with ms p1 show ?thesis by (simp add: bindS_def)
    next
      case (Inr x)
      with ms p1 f [of x] show ?thesis by (simp add: bindS_def keeps_def)
    qed
  qed
qed

lemma keeps_liftE: "keeps P (liftE m)"
  by (simp add: keeps_def liftE_def)

lemma keeps_getS: "keeps P (getS f)"
  by (simp add: keeps_def getS_def)

lemma keeps_pure: "keeps P (\<lambda>s. (f s, s))"
  by (simp add: keeps_def)

lemma keeps_modify: "(\<And>s. P s \<Longrightarrow> P (f s)) \<Longrightarrow> keeps P (modify f)"
  by (simp add: keeps_def modify_def)

lemma keeps_if: "(b \<Longrightarrow> keeps P m) \<Longrightarrow> (\<not> b \<Longrightarrow> keeps P n) \<Longrightarrow> keeps P (if b then m else n)"
  by simp

lemma forS_Cons: "forS body (x # xs) = bindS (body x) (\<lambda>u. forS body xs)"
  by (rule ext) (simp add: bindS_def split: prod.splits sum.splits)

lemma keeps_forS: "(\<And>x. keeps P (body x)) \<Longrightarrow> keeps P (forS body xs)"
proof (induction xs)
  case Nil
  show ?case by (simp add: keeps_def)
next
  case (Cons x xs)
  then show ?case by (simp only: forS_Cons keeps_bindS)
qed

text \<open>The publisher touches the server, the requests and the list of published records only.\<close>

lemma post_loop_frame:
  "\<exists>r a. snd (post_loop n url body resp s) = s\<lparr>responses := r, attempts := a\<rparr>"
proof (induction n arbitrary: resp s)
  case 0
  have e: "s = s\<lparr>responses := responses s, attempts := attempts s\<rparr>" by simp
  have "snd (post_loop 0 url body resp s) = s" by (simp split: option.splits)
  with e show ?case by metis
next
  case (Suc n)
  show ?case
  proof (cases "responses s")
    case Nil
    have "snd (post_loop (Suc n) url body resp s)
        = s\<lparr>responses := [], attempts := attempts s @ [(url, body)]\<rparr>"
      using Nil by (simp add: requests_post_def)
    then show ?thesis by blast
  next
    case (Cons c cs)
    let ?s1 = "s\<lparr>responses := cs, attempts := attempts s @ [(url, body)]\<rparr>"
    from Suc [of "Some c" ?s1] obtain r a where
      "snd (post_loop n url body (Some c) ?s1) = ?s1\<lparr>responses := r, attempts := a\<rparr>" by blast
    then have "snd (post_loop (Suc n) url body resp s)
        = s\<lparr>responses := (if IS_CODE_FOR_RETRY c then r else cs),
             attempts := (if IS_CODE_FOR_RETRY c then a else attempts s @ [(url, body)])\<rparr>"
      using Cons by (simp add: requests_post_def)
    then show ?thesis by blast
  qed
qed

lemma retry_post_frame:
  "\<exists>r a. snd (retry_post ev url blob s)
     = s\<lparr>responses := r, attempts := a, published := published s @ [(url, blob)]\<rparr>"
proof -
  let ?s0 = "s\<lparr>published := published s @ [(url, blob)]\<rparr>"
  obtain n body where
    rp: "retry_post ev url blob s = post_loop n url body None ?s0"
    by (simp add: retry_post_def retry_post_n_def Let_def)
  obtain r a where "snd (post_loop n url body None ?s0) = ?s0\<lparr>responses := r, attempts := a\<rparr>"
    using post_loop_frame by blast
  then have "snd (retry_post ev url blob s)
      = s\<lparr>responses := r, attempts := a, published := published s @ [(url, blob)]\<rparr>"
    by (simp add: rp)
  then show ?thesis by blast
qed

lemma send_snd:
  "snd (send ev endpoint blob s) = snd (retry_post ev (host s @ ''/'' @ endpoint) blob s)"
  by (simp add: send_def split: prod.splits sum.splits)

lemma send_frame:
  "\<exists>r a. snd (send ev endpoint blob s)
     = s\<lparr>responses := r, attempts := a,
          published := published s @ [(host s @ ''/'' @ endpoint, blob)]\<rparr>"
  unfolding send_snd by (rule retry_post_frame)

lemma keeps_send: "world_free P \<Longrightarrow> keeps P (send ev endpoint blob)"
proof -
  assume w: "world_free P"
  show ?thesis
    unfolding keeps_def
  proof (intro allI impI)
    fix s assume p: "P s"
    obtain r a where "snd (send ev endpoint blob s)
       = s\<lparr>responses := r, attempts := a,
          published := published s @ [(host s @ ''/'' @ endpoint, blob)]\<rparr>"
      using send_frame by blast
    with w p show "P (snd (send ev endpoint blob s))" by (simp add: world_free_def)
  qed
qed

lemmas keeps_intros =
  keeps_bindS keeps_liftE keeps_getS keeps_pure keeps_modify keeps_send keeps_if keeps_forS


subsection \<open>The aggregator reset\<close>

text \<open>
  Claim C9. \<open>__clear_game_data\<close> leaves the user identity, the match-to-event correlation,
  the opponent match id, the three cached rank strings and the last known UTC time as they
  were; the state after it differs from the state before it at most in the object
  ownership, the opening-hand presentation counters, the opening hands, the captured
  mulligan hands and the on-the-play marker.
\<close>

theorem clear_game_data_frame:
  "cur_user (clear_game_data s) = cur_user s
   \<and> current_match_event_id (clear_game_data s) = current_match_event_id s
   \<and> cur_opponent_match_id (clear_game_data s) = cur_opponent_match_id s
   \<and> cur_limited_level (clear_game_data s) = cur_limited_level s
   \<and> cur_constructed_level (clear_game_data s) = cur_constructed_level s
   \<and> cur_opponent_level (clear_game_data s) = cur_opponent_level s
   \<and> last_utc_time (clear_game_data s) = last_utc_time s
   \<and> (clear_game_data s)\<lparr>objects_by_owner := oo, opening_hand_count_by_seat := oc,
         opening_hand := oh, drawn_hands := dh, starting_team_id := st\<rparr>
       = s\<lparr>objects_by_owner := oo, opening_hand_count_by_seat := oc,
           opening_hand := oh, drawn_hands := dh, starting_team_id := st\<rparr>"
  by (simp add: clear_game_data_def)

subsection \<open>The publisher's retry policy\<close>

text \<open>
  Claim C6. With the retry budget \<open>RETRIES = 2\<close> and a server that answers \<open>a\<close>, \<open>b\<close>, \<open>c\<close>
  to the next three requests, \<open>__retry_post\<close> makes a further attempt exactly after a
  status code in 500..599 and takes any other code as final: it returns the first of
  \<open>a\<close>, \<open>b\<close> that is not in that range, and \<open>c\<close> when both are, after one, two or three
  POST requests of the same body. It returns a response and raises nothing. So the
  answers 503, 503, 200 give three attempts ending in the 200, and 500, 500, 500 give three
  attempts with the last 500 returned.
\<close>

theorem retry_post_policy:
  assumes "responses s = a # b # c # rest"
  shows "retry_post ev url blob s =
      (Inr (if \<not> (500 \<le> a \<and> a < 600) then a else if \<not> (500 \<le> b \<and> b < 600) then b else c),
       s\<lparr>responses :=
            (if \<not> (500 \<le> a \<and> a < 600) then b # c # rest
             else if \<not> (500 \<le> b \<and> b < 600) then c # rest else rest),
         attempts := attempts s @
            replicate (if \<not> (500 \<le> a \<and> a < 600) then 1
                       else if \<not> (500 \<le> b \<and> b < 600) then 2 else 3)
              (url, blob_set ''utc_time'' (JStr (isoformat ev (last_utc_time s)))
                      (blob_set ''token'' (JStr (token s))
                        (blob_set ''client_version'' (JStr CLIENT_VERSION) blob))),
         published := published s @ [(url, blob)]\<rparr>)"
  using assms
  by (auto simp add: retry_post_def retry_post_n_def RETRIES_def numeral_3_eq_3
      numeral_2_eq_2 requests_post_def IS_CODE_FOR_RETRY_def Let_def)

theorem retry_post_policy_witness:
  "fst (retry_post demo_env ''h/game'' (JObj []) (init ''tok'' ''h'' [503, 503, 200])) = Inr 200
   \<and> length (attempts (snd (retry_post demo_env ''h/game'' (JObj [])
         (init ''tok'' ''h'' [503, 503, 200])))) = 3
   \<and> fst (retry_post demo_env ''h/game'' (JObj []) (init ''tok'' ''h'' [500, 500, 500])) = Inr 500
   \<and> length (attempts (snd (retry_post demo_env ''h/game'' (JObj [])
         (init ''tok'' ''h'' [500, 500, 500])))) = 3
   \<and> fst (retry_post demo_env ''h/game'' (JObj []) (init ''tok'' ''h'' [404, 200, 200])) = Inr 404
   \<and> length (attempts (snd (retry_post demo_env ''h/game'' (JObj [])
         (init ''tok'' ''h'' [404, 200, 200])))) = 1"
  using retry_post_policy [of "init ''tok'' ''h'' [503, 503, 200]" 503 503 200 "[]"
          demo_env "''h/game''" "JObj []"]
        retry_post_policy [of "init ''tok'' ''h'' [500, 500, 500]" 500 500 500 "[]"
          demo_env "''h/game''" "JObj []"]
        retry_post_policy [of "init ''tok'' ''h'' [404, 200, 200]" 404 200 200 "[]"
          demo_env "''h/game''" "JObj []"]
  by (simp add: init_def)

subsection \<open>Deck lists (version 3)\<close>

lemma length_pairs_flat: "length (pairs_flat ps) = 2 * length ps"
  by (induction ps) (simp_all add: pairs_flat_def)

lemma pairs_flat_Cons: "pairs_flat (p # ps) = fst p # JInt (snd p) # pairs_flat ps"
  by (simp add: pairs_flat_def)

lemma v3_loop_pairs:
  "v3_loop (pairs_flat pre @ pairs_flat ps) (length pre) (length ps) acc
     = Inr (acc @ expand_pairs ps)"
proof (induction ps arbitrary: pre acc)
  case Nil
  then show ?case by (simp add: expand_pairs_def)
next
  case (Cons p ps)
  have l: "length (pairs_flat pre) = 2 * length pre" by (rule length_pairs_flat)
  have a: "(pairs_flat pre @ pairs_flat (p # ps)) ! (2 * length pre) = fst p"
    by (simp add: nth_append l pairs_flat_Cons)
  have b: "(pairs_flat pre @ pairs_flat (p # ps)) ! Suc (2 * length pre) = JInt (snd p)"
    by (simp add: nth_append l pairs_flat_Cons)
  have c: "pairs_flat pre @ pairs_flat (p # ps) = pairs_flat (pre @ [p]) @ pairs_flat ps"
    by (simp add: pairs_flat_def)
  have "v3_loop (pairs_flat (pre @ [p]) @ pairs_flat ps) (length (pre @ [p])) (length ps)
          (acc @ replicate (nat (snd p)) (fst p))
        = Inr ((acc @ replicate (nat (snd p)) (fst p)) @ expand_pairs ps)"
    by (rule Cons.IH)
  then show ?case
    using a b by (simp add: c [symmetric] expand_pairs_def)
qed

lemma count_expand_pairs:
  "count (mset (expand_pairs ps)) c = (\<Sum>p\<leftarrow>ps. if fst p = c then nat (snd p) else 0)"
  by (induction ps) (simp_all add: expand_pairs_def)

lemma v3_even:
  "get_card_ids_from_decklist_v3 (JArr (pairs_flat ps)) = Inr (expand_pairs ps)"
proof -
  have "pairs_flat [] = []" by (simp add: pairs_flat_def)
  with v3_loop_pairs [of "[]" ps "[]"] show ?thesis
    by (simp add: length_pairs_flat)
qed

lemma v3_odd: "odd (length xs) \<Longrightarrow> get_card_ids_from_decklist_v3 (JArr xs) = Inl AssertionError"
  by (simp add: odd_iff_mod_2_eq_one)

lemma dispatch_v3:
  assumes "json_value_matches ''Client.Connected'' [''params'', ''messageName''] (JObj kvs) = Inr False"
    and "json_value_matches ''DuelScene.GameStop'' [''params'', ''messageName''] (JObj kvs) = Inr False"
    and "map_of kvs ''DraftStatus'' = None"
    and "map_of kvs ''method'' = Some (JStr ''Event.DeckSubmitV3'')"
  shows "dispatch ev full_log (JObj kvs) s = handle_deck_submission_v3 ev (JObj kvs) s"
  unfolding dispatch_def
  by (simp only: assms(1,2) jvm_method [OF assms(4)] bindS_liftE py_in.simps key_in [OF assms(3)])
     simp

lemma v3_handler_odd:
  assumes "py_path (JObj kvs) [''params'', ''deck''] = Inr (JStr dtext)"
    and "json_loads ev dtext = Some deck_info"
    and "py_path (JObj kvs) [''params'', ''eventName''] = Inr en"
    and "cur_log_time s = Some t"
    and "py_item deck_info ''mainDeck'' = Inr (JArr xs)"
    and "odd (length xs)"
  shows "handle_deck_submission_v3 ev (JObj kvs) s = (Inl AssertionError, clear_game_data s)"
proof -
  from assms(1) obtain inner where i: "py_item (JObj kvs) ''params'' = Inr inner"
    and d: "py_item inner ''deck'' = Inr (JStr dtext)"
    unfolding py_path2 by blast
  from assms(3) i have e: "py_item inner ''eventName'' = Inr en"
    unfolding py_path2 by auto
  from i have mp: "map_of kvs ''params'' = Some inner"
    by (simp split: option.splits)
  show ?thesis
    using assms(2,4,5,6)
    by (simp add: handle_deck_submission_v3_def mp d e time_iso_def card_ids_v3_def
        odd_iff_mod_2_eq_one)
qed

lemma v3_entry_dropped:
  assumes e: "v3_entry ev s kvs deck_info"
    and m: "py_item deck_info ''mainDeck'' = Inr (JArr xs)"
    and o: "odd (length xs)"
  shows "buffer (handle_complete_log_entry ev s) = []
     \<and> logged (handle_complete_log_entry ev s) = logged s @ [(AssertionError, concat (buffer s))]
     \<and> attempts (handle_complete_log_entry ev s) = attempts s
     \<and> published (handle_complete_log_entry ev s) = published s"
proof -
  let ?full = "concat (buffer s)"
  from e obtain i d en where i: "json_start ?full = Some i"
    and d: "raw_decode ev ?full i = Some (d, en)"
    and x: "extract_payload ev d = Inr (JObj kvs)"
    by (auto simp: v3_entry_def split: option.splits)
  from e obtain dtext where dt: "py_path (JObj kvs) [''params'', ''deck''] = Inr (JStr dtext)"
    and jl: "json_loads ev dtext = Some deck_info"
    by (auto simp: v3_entry_def split: sum.splits json.splits simp del: py_path.simps)
  from e obtain ename where en: "py_path (JObj kvs) [''params'', ''eventName''] = Inr ename"
    by (auto simp: v3_entry_def split: sum.splits simp del: py_path.simps)
  from e obtain t where t: "cur_log_time s = Some t" and b: "buffer s \<noteq> []"
    by (auto simp: v3_entry_def)
  from e have c: "json_value_matches ''Client.Connected'' [''params'', ''messageName''] (JObj kvs) = Inr False"
    "json_value_matches ''DuelScene.GameStop'' [''params'', ''messageName''] (JObj kvs) = Inr False"
    "map_of kvs ''DraftStatus'' = None"
    "map_of kvs ''method'' = Some (JStr ''Event.DeckSubmitV3'')"
    by (simp_all add: v3_entry_def)
  define s1 where "s1 = (case maybe_get_utc_timestamp ev (JObj kvs) of
                                 Inr (Some t) \<Rightarrow> s\<lparr>last_utc_time := t\<rparr>
                               | _ \<Rightarrow> s)"
  have s1t: "cur_log_time s1 = Some t" and s1f: "logged s1 = logged s" "attempts s1 = attempts s"
     "published s1 = published s"
    by (simp_all add: s1_def t split: sum.splits option.splits)
  have hb: "handle_blob ev ?full s = dispatch ev ?full (JObj kvs) s1"
    by (simp add: handle_blob_def i d x s1_def Let_def)
  have "handle_blob ev ?full s = (Inl AssertionError, clear_game_data s1)"
    unfolding hb dispatch_v3 [OF c]
    by (rule v3_handler_odd [OF dt jl en s1t m o])
  then show ?thesis using b t s1f
    by (simp add: handle_complete_log_entry_def Let_def)
qed

text \<open>
  Claim C7. For a deck list that is the flat array of pairs of a card identifier and an
  integer count (so of even length), \<open>__get_card_ids_from_decklist_v3\<close> returns the
  sequence that repeats each card identifier as often as its count says, pair after pair,
  so that a card occurs in the result as often as the counts of its pairs add up. For an
  array of odd length the decoder raises (the assertion fails). When that happens for the
  main deck of a deck submission, the error is caught where the entry is closed: it is
  logged with the text of the entry, the buffer is cleared, no request is made and no
  record is published, and \<open>__handle_complete_log_entry\<close> returns, so the loop that
  called it goes on with the next line.
\<close>

theorem decklist_v3:
  "get_card_ids_from_decklist_v3 (JArr (pairs_flat ps)) = Inr (expand_pairs ps)
   \<and> count (mset (expand_pairs ps)) c = (\<Sum>p\<leftarrow>ps. if fst p = c then nat (snd p) else 0)
   \<and> (odd (length xs) \<longrightarrow> get_card_ids_from_decklist_v3 (JArr xs) = Inl AssertionError)
   \<and> (odd (length xs) \<and> v3_entry ev s kvs deck_info
        \<and> py_item deck_info ''mainDeck'' = Inr (JArr xs)
      \<longrightarrow> buffer (handle_complete_log_entry ev s) = []
        \<and> logged (handle_complete_log_entry ev s)
            = logged s @ [(AssertionError, concat (buffer s))]
        \<and> attempts (handle_complete_log_entry ev s) = attempts s
        \<and> published (handle_complete_log_entry ev s) = published s)"
  using v3_even [of ps] count_expand_pairs [of ps c] v3_odd [of xs]
    v3_entry_dropped [of ev s kvs deck_info xs]
  by blast



lemma demo_v3_entry:
  "v3_entry demo_env ((init ''tok'' ''h'' [200])\<lparr>buffer := [v3_text]\<rparr>) v3_fields v3_deck_json"
  by (simp add: v3_entry_def init_def extract_payload_def)
     (simp add: v3_fields_def)

lemma append_v3:
  "append_line demo_env v3_line (init ''tok'' ''h'' [200])
     = (Inr (), (init ''tok'' ''h'' [200])\<lparr>buffer := [v3_text]\<rparr>)"
  by (simp add: append_line_def maybe_handle_account_info_def modify_def
      handle_complete_log_entry_def init_def)

theorem decklist_v3_witness:
  "get_card_ids_from_decklist_v3 (JArr (pairs_flat [(JInt 70001, 2), (JInt 70002, 1)]))
     = Inr [JInt 70001, JInt 70001, JInt 70002]
   \<and> count (mset (expand_pairs [(JInt 70001, 2), (JInt 70002, 1)])) (JInt 70001) = 2
   \<and> odd (length [JInt 70001, JInt 2, JInt 70002])
   \<and> get_card_ids_from_decklist_v3 (JArr [JInt 70001, JInt 2, JInt 70002]) = Inl AssertionError
   \<and> v3_entry demo_env ((init ''tok'' ''h'' [200])\<lparr>buffer := [v3_text]\<rparr>) v3_fields v3_deck_json
   \<and> py_item v3_deck_json ''mainDeck'' = Inr (JArr [JInt 70001, JInt 2, JInt 70002])
   \<and> logged (handle_complete_log_entry demo_env ((init ''tok'' ''h'' [200])\<lparr>buffer := [v3_text]\<rparr>))
        = [(AssertionError, v3_text)]
   \<and> attempts (handle_complete_log_entry demo_env ((init ''tok'' ''h'' [200])\<lparr>buffer := [v3_text]\<rparr>))
        = []"
proof -
  have r: "replicate 2 (JInt 70001) = [JInt 70001, JInt 70001]"
    by (simp add: numeral_2_eq_2)
  show ?thesis
    using decklist_v3 [of "[(JInt 70001, 2), (JInt 70002, 1)]" "JInt 70001"
      "[JInt 70001, JInt 2, JInt 70002]" demo_env
      "(init ''tok'' ''h'' [200])\<lparr>buffer := [v3_text]\<rparr>" v3_fields v3_deck_json]
      demo_v3_entry
    by (simp add: expand_pairs_def v3_deck_json_def r) (simp add: init_def)
qed

lemma v3_closed:
  "handle_complete_log_entry demo_env ((init ''tok'' ''h'' [200])\<lparr>buffer := [v3_text]\<rparr>)
     = (init ''tok'' ''h'' [200])\<lparr>logged := [(AssertionError, v3_text)]\<rparr>"
proof -
  have d: "dispatch demo_env v3_text (JObj v3_fields) s
      = handle_deck_submission_v3 demo_env (JObj v3_fields) s" for s
    by (rule dispatch_v3) (simp_all add: v3_fields_def)
  have h: "handle_deck_submission_v3 demo_env (JObj v3_fields) (init ''tok'' ''h'' [200]\<lparr>buffer := [v3_text]\<rparr>)
      = (Inl AssertionError, clear_game_data (init ''tok'' ''h'' [200]\<lparr>buffer := [v3_text]\<rparr>))"
    by (rule v3_handler_odd [where dtext = v3_deck_text and deck_info = v3_deck_json
          and en = "JStr ''QuickDraft''" and t = 0 and xs = "[JInt 70001, JInt 2, JInt 70002]"])
       (simp_all add: v3_fields_def v3_deck_json_def init_def)
  have u: "maybe_get_utc_timestamp demo_env (JObj v3_fields) = Inr None"
    by (simp add: maybe_get_utc_timestamp_def find_timestamp_def v3_fields_def)
  have x: "extract_payload demo_env (JObj v3_fields) = Inr (JObj v3_fields)"
    by (simp add: extract_payload_def v3_fields_def)
  have "handle_blob demo_env v3_text (init ''tok'' ''h'' [200]\<lparr>buffer := [v3_text]\<rparr>)
     = (Inl AssertionError, clear_game_data (init ''tok'' ''h'' [200]\<lparr>buffer := [v3_text]\<rparr>))"
    by (simp add: handle_blob_def x u d h)
  then show ?thesis
    by (simp add: handle_complete_log_entry_def) (simp add: init_def clear_game_data_def)
qed



text \<open>
  The follower reads the deck submission with the odd main deck and then a login: the
  first entry is logged and dropped, the second is published.
\<close>

lemma v3_then_login:
  "fst (read_lines demo_env [v3_line, login_line] (init ''tok'' ''h'' [200])) = Inr ()
   \<and> logged (snd (read_lines demo_env [v3_line, login_line] (init ''tok'' ''h'' [200])))
       = [(AssertionError, v3_text)]
   \<and> published (snd (read_lines demo_env [v3_line, login_line] (init ''tok'' ''h'' [200])))
       = [(''h/api/account'', JObj [
             (''player_id'', JStr ''P1''), (''screen_name'', JStr ''Ann''),
             (''raw_time'', JStr [])])]"
proof -
  let ?s0 = "init ''tok'' ''h'' [200]"
  let ?s2 = "?s0\<lparr>logged := [(AssertionError, v3_text)], buffer := [login_text]\<rparr>"
  have a1: "append_line demo_env v3_line ?s0 = (Inr (), ?s0\<lparr>buffer := [v3_text]\<rparr>)"
    by (rule append_v3)
  have a2: "append_line demo_env login_line (?s0\<lparr>buffer := [v3_text]\<rparr>) = (Inr (), ?s2)"
    by (simp add: append_line_def maybe_handle_account_info_def modify_def v3_closed)
       (simp add: init_def)
  have f: "forS (append_line demo_env) [v3_line, login_line] ?s0 = (Inr (), ?s2)"
    by (simp only: forS.simps a1 a2 prod.case sum.case)
  have b: "buffer ?s2 \<noteq> []" "cur_log_time ?s2 \<noteq> None" "concat (buffer ?s2) = login_text"
    "responses ?s2 = 200 # []"
    by (simp_all add: init_def)
  note r = demo_login_run [OF b(4)]
  have a3: "handle_complete_log_entry demo_env ?s2
      = snd (handle_login demo_env login_json ?s2)\<lparr>buffer := []\<rparr>"
    by (rule closed_ok [OF b(1,2)]) (simp only: b(3) demo_login_blob r snd_conv)
  show ?thesis
    unfolding read_lines_def
    by (simp only: bindS_def f prod.case sum.case modify_def a3 r snd_conv) (simp add: init_def)
qed

subsection \<open>Envelopes\<close>

lemma extract_payload_obj:
  "extract_payload ev (JObj kvs) =
     Inr (if map_of kvs ''id'' = None then JObj kvs
          else case map_of kvs ''payload'' of
                 Some p \<Rightarrow> p
               | None \<Rightarrow>
                  (case map_of kvs ''request'' of
                     Some (JStr r) \<Rightarrow>
                       (case raw_decode ev r 0 of Some (j, e) \<Rightarrow> j | None \<Rightarrow> JObj kvs)
                   | _ \<Rightarrow> JObj kvs))"
  by (auto simp: extract_payload_def map_of_eq_None_iff [symmetric]
      split: option.splits json.splits sum.splits)

text \<open>
  Claim C8. For a decoded JSON object, \<open>__extract_payload\<close> gives, in this order of
  precedence: the object itself when it has no \<open>id\<close>; the value of \<open>payload\<close> when it has
  \<open>id\<close> and \<open>payload\<close>; the document decoded from \<open>request\<close> when it has \<open>id\<close> and
  \<open>request\<close> and the decoding succeeds; the object itself when it has \<open>id\<close> and \<open>request\<close>
  and the request is not a string or does not decode. \<open>__handle_blob\<close> passes the result
  to the classification exactly when it is a mapping; with any other result it returns
  and leaves the follower as it was.
\<close>

theorem extract_payload_cases:
  "(map_of kvs ''id'' = None \<longrightarrow> extract_payload ev (JObj kvs) = Inr (JObj kvs))
   \<and> (map_of kvs ''id'' \<noteq> None \<and> map_of kvs ''payload'' = Some p
        \<longrightarrow> extract_payload ev (JObj kvs) = Inr p)
   \<and> (map_of kvs ''id'' \<noteq> None \<and> map_of kvs ''payload'' = None
        \<and> map_of kvs ''request'' = Some (JStr r) \<and> raw_decode ev r 0 = Some (j, e)
        \<longrightarrow> extract_payload ev (JObj kvs) = Inr j)
   \<and> (map_of kvs ''id'' \<noteq> None \<and> map_of kvs ''payload'' = None
        \<and> map_of kvs ''request'' = Some q \<and> (\<forall>t. q = JStr t \<longrightarrow> raw_decode ev t 0 = None)
        \<longrightarrow> extract_payload ev (JObj kvs) = Inr (JObj kvs))
   \<and> (json_start full_log = Some i \<and> raw_decode ev full_log i = Some (d, n)
        \<and> extract_payload ev d = Inr v \<and> \<not> is_dict v
        \<longrightarrow> handle_blob ev full_log s = (Inr (), s))
   \<and> (json_start full_log = Some i \<and> raw_decode ev full_log i = Some (d, n)
        \<and> extract_payload ev d = Inr v \<and> is_dict v
        \<longrightarrow> handle_blob ev full_log s
            = dispatch ev full_log v
                (case maybe_get_utc_timestamp ev v of
                   Inr (Some t) \<Rightarrow> s\<lparr>last_utc_time := t\<rparr>
                 | _ \<Rightarrow> s))"
proof -
  have "map_of kvs ''request'' = Some q \<Longrightarrow> \<forall>t. q = JStr t \<longrightarrow> raw_decode ev t 0 = None
     \<Longrightarrow> (case map_of kvs ''request'' of
                     Some (JStr r) \<Rightarrow>
                       (case raw_decode ev r 0 of Some (j, e) \<Rightarrow> j | None \<Rightarrow> JObj kvs)
                   | _ \<Rightarrow> JObj kvs) = JObj kvs"
    by (cases q) simp_all
  then show ?thesis
    by (auto simp: extract_payload_obj handle_blob_def Let_def)
qed

theorem extract_payload_cases_witness:
  "extract_payload demo_env (JObj [(''a'', JInt 1)]) = Inr (JObj [(''a'', JInt 1)])
   \<and> extract_payload demo_env (JObj envelope_fields) = Inr (JArr [JInt 1, JInt 2])
   \<and> extract_payload demo_env (JObj [(''id'', JInt 8), (''request'', JStr login_text)])
       = Inr login_json
   \<and> extract_payload demo_env (JObj [(''id'', JInt 9), (''request'', JStr ''oops'')])
       = Inr (JObj [(''id'', JInt 9), (''request'', JStr ''oops'')])
   \<and> extract_payload demo_env (JObj [(''id'', JInt 9), (''request'', JInt 5)])
       = Inr (JObj [(''id'', JInt 9), (''request'', JInt 5)])
   \<and> handle_blob demo_env envelope_text (init ''tok'' ''h'' [200]) = (Inr (), init ''tok'' ''h'' [200])
   \<and> handle_blob demo_env login_text (init ''tok'' ''h'' [200])
       = dispatch demo_env login_text login_json (init ''tok'' ''h'' [200])"
proof -
  have "is_dict login_json" by (simp add: login_json_def)
  then show ?thesis
  using extract_payload_cases [of "[(''a'', JInt 1)]" demo_env "JArr [JInt 1, JInt 2]"
      login_text login_json "length login_text" "JStr ''oops''" envelope_text 0
      "JObj envelope_fields" "length envelope_text" "JArr [JInt 1, JInt 2]"
      "init ''tok'' ''h'' [200]"]
    extract_payload_cases [of envelope_fields demo_env "JArr [JInt 1, JInt 2]"
      login_text login_json "length login_text" "JStr ''oops''" login_text 0
      login_json "length login_text" login_json
      "init ''tok'' ''h'' [200]"]
    extract_payload_cases [of "[(''id'', JInt 8), (''request'', JStr login_text)]" demo_env
      "JArr [JInt 1, JInt 2]"
      login_text login_json "length login_text" "JStr ''oops''" login_text 0
      login_json "length login_text" login_json
      "init ''tok'' ''h'' [200]"]
    extract_payload_cases [of "[(''id'', JInt 9), (''request'', JStr ''oops'')]" demo_env
      "JArr [JInt 1, JInt 2]"
      login_text login_json "length login_text" "JStr ''oops''" login_text 0
      login_json "length login_text" login_json
      "init ''tok'' ''h'' [200]"]
    extract_payload_cases [of "[(''id'', JInt 9), (''request'', JInt 5)]" demo_env
      "JArr [JInt 1, JInt 2]"
      login_text login_json "length login_text" "JInt 5" login_text 0
      login_json "length login_text" login_json
      "init ''tok'' ''h'' [200]"]
    by (simp add: envelope_fields_def demo_login_payload demo_login_utc)
qed

subsection \<open>The current log time is never unset\<close>

lemma wf_timed: "world_free timed"
  by (simp add: world_free_def timed_def)

lemma timed_clear [simp]: "timed (clear_game_data s) = timed s"
  by (simp add: timed_def)

lemma keeps_case_sum:
  "(\<And>e. keeps P (f e)) \<Longrightarrow> (\<And>x. keeps P (g x)) \<Longrightarrow> keeps P (case r of Inl e \<Rightarrow> f e | Inr x \<Rightarrow> g x)"
  by (cases r) simp_all

lemma keeps_raise: "keeps P (\<lambda>s. (Inl e, s))"
  by (simp add: keeps_def)

lemma keeps_at: "keeps P m \<Longrightarrow> P s \<Longrightarrow> P (snd (m s))"
  by (simp add: keeps_def)

lemma timed_send_game_end:
  "keeps timed (send_game_end ev seat_id match_id mh en op won wt ger tc du)"
  unfolding keeps_def
proof (intro allI impI)
  fix s assume t: "timed s"
  have k: "\<And>ep blob s'. timed s' \<Longrightarrow> timed (snd (send ev ep blob s'))"
    using keeps_send [OF wf_timed] by (simp add: keeps_def)
  show "timed (snd (send_game_end ev seat_id match_id mh en op won wt ger tc du s))"
    using t
    by (auto simp: send_game_end_def Let_def timed_def [of "_\<lparr>cur_opponent_level := _\<rparr>"]
        intro!: k split: sum.splits)
       (simp_all add: timed_def)
qed

lemmas timed_intros =
  keeps_bindS keeps_liftE keeps_getS keeps_pure keeps_modify keeps_send [OF wf_timed]
  keeps_if keeps_forS timed_send_game_end

lemma timed_game_over_result:
  "keeps timed (game_over_result ev ssi gsm gi r)"
  unfolding game_over_result_def
  by (intro timed_intros) (simp add: timed_def)

lemma timed_game_over_loop:
  "keeps timed (game_over_loop ev ssi gsm gi rs)"
proof (induction rs)
  case Nil
  show ?case by (simp add: keeps_def)
next
  case (Cons r rs)
  have "timed (snd (game_over_loop ev ssi gsm gi (r # rs) s))" if "timed s" for s
    using that keeps_at [OF Cons] keeps_at [OF timed_game_over_result]
    by (simp split: sum.splits)
  then show ?case by (simp add: keeps_def)
qed

lemma timed_maybe_game_over:
  "keeps timed (maybe_handle_game_over_stage ev ssi gsm)"
  unfolding maybe_handle_game_over_stage_def
  by (intro timed_intros timed_game_over_loop)

lemma timed_track_object: "keeps timed (track_object x)"
  unfolding track_object_def
  by (intro timed_intros) (simp_all add: timed_def)

lemma timed_track_zone: "keeps timed (track_zone x)"
  unfolding track_zone_def
  by (intro timed_intros) (simp_all add: timed_def)

lemma timed_mulligan_step: "keeps timed (mulligan_step ti pm)"
  by (auto simp: keeps_def mulligan_step_def Let_def timed_def split: sum.splits)

lemma timed_capture: "keeps timed (capture_opening_hand ti)"
  by (auto simp: keeps_def capture_opening_hand_def timed_def split: sum.splits)

lemma timed_submit_deck_req: "keeps timed (submit_deck_req ev m)"
  unfolding submit_deck_req_def
  by (intro timed_intros)

lemma timed_game_state_message: "keeps timed (game_state_message ev m)"
  unfolding game_state_message_def
  by (intro timed_intros timed_maybe_game_over timed_track_object timed_track_zone
      timed_mulligan_step timed_capture)

lemma timed_gre: "keeps timed (handle_gre_to_client_message ev m)"
  unfolding handle_gre_to_client_message_def
  by (intro timed_intros timed_submit_deck_req timed_game_state_message)

lemma timed_match_started: "keeps timed (handle_match_started j)"
  unfolding handle_match_started_def
  by (intro timed_intros) (simp add: timed_def)

lemma timed_event_completion: "keeps timed (handle_event_completion ev j)"
  unfolding handle_event_completion_def
  by (intro timed_intros)

lemma timed_game_end: "keeps timed (handle_game_end ev j)"
  unfolding handle_game_end_def
  by (intro timed_intros)

lemma timed_login: "keeps timed (handle_login ev j)"
  unfolding handle_login_def
  by (intro timed_intros) (simp_all add: timed_def)

lemma timed_draft_log: "keeps timed (handle_draft_log ev j)"
  unfolding handle_draft_log_def
  by (intro timed_intros) simp

lemma timed_draft_pick: "keeps timed (handle_draft_pick ev j)"
  unfolding handle_draft_pick_def
  by (intro timed_intros) simp

lemma timed_human_draft_pick: "keeps timed (handle_human_draft_pick ev j)"
  unfolding handle_human_draft_pick_def
  by (intro timed_intros) simp

lemma timed_deck_submission: "keeps timed (handle_deck_submission ev j)"
  unfolding handle_deck_submission_def
  by (intro timed_intros) simp

lemma timed_deck_submission_v3: "keeps timed (handle_deck_submission_v3 ev j)"
  unfolding handle_deck_submission_v3_def
  by (intro timed_intros) simp

lemma timed_self_rank_info: "keeps timed (handle_self_rank_info ev j)"
  unfolding handle_self_rank_info_def
  by (intro timed_intros) (simp_all add: timed_def)

lemma timed_match_created: "keeps timed (handle_match_created ev j)"
  unfolding handle_match_created_def
  by (intro timed_intros) (simp_all add: timed_def)

lemma timed_collection: "keeps timed (handle_collection ev j)"
  unfolding handle_collection_def
  by (intro timed_intros)

lemma timed_dispatch: "keeps timed (dispatch ev full_log j)"
  unfolding dispatch_def
  by (intro timed_intros timed_login timed_game_end timed_draft_log timed_draft_pick
      timed_human_draft_pick timed_deck_submission timed_deck_submission_v3
      timed_event_completion timed_match_started timed_gre timed_self_rank_info
      timed_match_created timed_collection)

lemma timed_handle_blob: "keeps timed (handle_blob ev full_log)"
  unfolding keeps_def
proof (intro allI impI)
  fix s assume t: "timed s"
  have u: "timed (s\<lparr>last_utc_time := x\<rparr>)" for x using t by (simp add: timed_def)
  show "timed (snd (handle_blob ev full_log s))"
    using t u keeps_at [OF timed_dispatch]
    by (auto simp: handle_blob_def Let_def split: option.splits sum.splits)
qed

lemma timed_closed: "timed s \<Longrightarrow> timed (handle_complete_log_entry ev s)"
proof -
  assume t: "timed s"
  have "timed (snd (handle_blob ev (concat (buffer s)) s))"
    using t by (rule keeps_at [OF timed_handle_blob])
  then show ?thesis
    using t
    by (auto simp: handle_complete_log_entry_def Let_def timed_def split: prod.splits sum.splits)
qed

lemma timed_set_time: "keeps timed (set_time ev g)"
  unfolding set_time_def
  by (intro timed_intros) (simp_all add: timed_def)

lemma timed_account_info: "keeps timed (maybe_handle_account_info ev line)"
  unfolding maybe_handle_account_info_def
  by (auto split: option.splits intro!: timed_intros simp: timed_def)

lemma timed_append_line: "keeps timed (append_line ev line)"
  unfolding append_line_def
  by (auto split: option.splits intro!: timed_intros timed_account_info timed_set_time
      timed_closed simp: timed_def)

lemma timed_read_lines: "keeps timed (read_lines ev lines)"
  unfolding read_lines_def
  by (intro timed_intros timed_append_line timed_closed)

subsection \<open>Entries without a timestamp\<close>

text \<open>
  Claim C1, as the code has it. \<open>__handle_complete_log_entry\<close> discards a non-empty
  buffer without processing it exactly when the current log time is \<open>None\<close>. The
  constructor sets the current log time to the epoch, not to \<open>None\<close>, and nothing sets it
  to \<open>None\<close> afterwards: reading lines, closing entries and every handler keep it set. So
  in every state reached from the constructor a non-empty entry is joined and handed to
  \<open>__handle_blob\<close> (its exception, if any, logged), whether a timestamp has been observed
  or not.
\<close>

theorem entry_processed_unless_time_is_none:
  "(buffer s \<noteq> [] \<and> cur_log_time s = None
      \<longrightarrow> handle_complete_log_entry ev s = s\<lparr>buffer := []\<rparr>)
   \<and> (buffer s \<noteq> [] \<and> cur_log_time s \<noteq> None
      \<longrightarrow> handle_complete_log_entry ev s =
           (case handle_blob ev (concat (buffer s)) s of
              (Inl e, s1) \<Rightarrow> s1\<lparr>logged := logged s1 @ [(e, concat (buffer s))], buffer := []\<rparr>
            | (Inr u, s1) \<Rightarrow> s1\<lparr>buffer := []\<rparr>))
   \<and> cur_log_time (init tok hst srv) \<noteq> None
   \<and> (cur_log_time s \<noteq> None
      \<longrightarrow> cur_log_time (snd (append_line ev line s)) \<noteq> None
        \<and> cur_log_time (handle_complete_log_entry ev s) \<noteq> None
        \<and> cur_log_time (snd (read_lines ev lines s)) \<noteq> None)"
proof -
  have a: "timed s \<Longrightarrow> timed (snd (append_line ev line s))"
    by (rule keeps_at [OF timed_append_line])
  have b: "timed s \<Longrightarrow> timed (snd (read_lines ev lines s))"
    by (rule keeps_at [OF timed_read_lines])
  have c: "timed s \<Longrightarrow> timed (handle_complete_log_entry ev s)"
    by (rule timed_closed)
  have d: "cur_log_time (init tok hst srv) \<noteq> None" by (simp add: init_def)
  have e: "buffer s \<noteq> [] \<Longrightarrow> cur_log_time s = None
      \<Longrightarrow> handle_complete_log_entry ev s = s\<lparr>buffer := []\<rparr>"
    by (simp add: handle_complete_log_entry_def)
  have f: "buffer s \<noteq> [] \<Longrightarrow> cur_log_time s \<noteq> None
      \<Longrightarrow> handle_complete_log_entry ev s =
           (case handle_blob ev (concat (buffer s)) s of
              (Inl e, s1) \<Rightarrow> s1\<lparr>logged := logged s1 @ [(e, concat (buffer s))], buffer := []\<rparr>
            | (Inr u, s1) \<Rightarrow> s1\<lparr>buffer := []\<rparr>)"
    by (auto simp: handle_complete_log_entry_def Let_def)
  from a b c d e f show ?thesis
    unfolding timed_def by blast
qed

theorem entry_processed_unless_time_is_none_witness:
  "handle_complete_log_entry demo_env
      ((init ''tok'' ''h'' [200])\<lparr>buffer := [login_text], cur_log_time := None\<rparr>)
     = (init ''tok'' ''h'' [200])\<lparr>buffer := [], cur_log_time := None\<rparr>
   \<and> published (handle_complete_log_entry demo_env ((init ''tok'' ''h'' [200])\<lparr>buffer := [login_text]\<rparr>))
       = [(''h/api/account'', JObj [
             (''player_id'', JStr ''P1''), (''screen_name'', JStr ''Ann''),
             (''raw_time'', JStr [])])]
   \<and> cur_log_time (snd (append_line demo_env login_line (init ''tok'' ''h'' [200]))) \<noteq> None
   \<and> cur_log_time (snd (read_lines demo_env [login_line] (init ''tok'' ''h'' [200]))) \<noteq> None"
proof -
  let ?s0 = "init ''tok'' ''h'' [200]"
  have r: "responses (?s0\<lparr>buffer := [login_text]\<rparr>) = 200 # []" by (simp add: init_def)
  have h: "cur_log_time ?s0 \<noteq> None" "buffer (?s0\<lparr>buffer := [login_text]\<rparr>) \<noteq> []"
    "cur_log_time (?s0\<lparr>buffer := [login_text]\<rparr>) \<noteq> None"
    "concat (buffer (?s0\<lparr>buffer := [login_text]\<rparr>)) = login_text"
    by (simp_all add: init_def)
  have n: "buffer (?s0\<lparr>buffer := [login_text], cur_log_time := None\<rparr>) \<noteq> []"
    "cur_log_time (?s0\<lparr>buffer := [login_text], cur_log_time := None\<rparr>) = None"
    by simp_all
  from entry_processed_unless_time_is_none
         [of "?s0\<lparr>buffer := [login_text], cur_log_time := None\<rparr>" demo_env "''tok''" "''h''" "[200]"
             login_line "[login_line]"] n
  have 1: "handle_complete_log_entry demo_env (?s0\<lparr>buffer := [login_text], cur_log_time := None\<rparr>)
      = ?s0\<lparr>buffer := [], cur_log_time := None\<rparr>"
    by simp
  from entry_processed_unless_time_is_none
         [of "?s0\<lparr>buffer := [login_text]\<rparr>" demo_env "''tok''" "''h''" "[200]"
             login_line "[login_line]"] h(2,3)
  have "handle_complete_log_entry demo_env (?s0\<lparr>buffer := [login_text]\<rparr>) =
       (case handle_blob demo_env (concat (buffer (?s0\<lparr>buffer := [login_text]\<rparr>)))
               (?s0\<lparr>buffer := [login_text]\<rparr>) of
              (Inl e, s1) \<Rightarrow> s1\<lparr>logged := logged s1 @ [(e, concat (buffer (?s0\<lparr>buffer := [login_text]\<rparr>)))], buffer := []\<rparr>
            | (Inr u, s1) \<Rightarrow> s1\<lparr>buffer := []\<rparr>)"
    by blast
  then have 2: "published (handle_complete_log_entry demo_env (?s0\<lparr>buffer := [login_text]\<rparr>))
       = [(''h/api/account'', JObj [
             (''player_id'', JStr ''P1''), (''screen_name'', JStr ''Ann''),
             (''raw_time'', JStr [])])]"
    by (simp only: h(4) demo_login_blob demo_login_run [OF r] prod.case sum.case)
       (simp add: init_def)
  from entry_processed_unless_time_is_none
         [of ?s0 demo_env "''tok''" "''h''" "[200]" login_line "[login_line]"] h(1)
  have 3: "cur_log_time (snd (append_line demo_env login_line ?s0)) \<noteq> None
       \<and> cur_log_time (snd (read_lines demo_env [login_line] ?s0)) \<noteq> None"
    by blast
  from 1 2 3 show ?thesis by blast
qed

text \<open>
  Claim C1 as stated fails: a new follower, which has observed no timestamp, reads one
  line with an entry marker without a time and a login message, and the end of the file.
  The entry is not discarded: the login record is published (with an empty raw time).
\<close>

theorem no_timestamp_counterexample:
  "published (snd (read_lines demo_env [login_line] (init ''tok'' ''h'' [200])))
     = [(''h/api/account'', JObj [
             (''player_id'', JStr ''P1''), (''screen_name'', JStr ''Ann''),
             (''raw_time'', JStr [])])]
   \<and> last_raw_time (snd (read_lines demo_env [login_line] (init ''tok'' ''h'' [200]))) = []"
proof -
  let ?s0 = "init ''tok'' ''h'' [200]"
  let ?s1 = "?s0\<lparr>buffer := [login_text]\<rparr>"
  have a1: "append_line demo_env login_line ?s0 = (Inr (), ?s1)"
    by (simp add: append_line_def maybe_handle_account_info_def modify_def
      handle_complete_log_entry_def init_def)
  have f: "forS (append_line demo_env) [login_line] ?s0 = (Inr (), ?s1)"
    by (simp only: forS.simps a1 prod.case sum.case)
  have b: "buffer ?s1 \<noteq> []" "cur_log_time ?s1 \<noteq> None" "concat (buffer ?s1) = login_text"
    "responses ?s1 = 200 # []"
    by (simp_all add: init_def)
  note r = demo_login_run [OF b(4)]
  have a3: "handle_complete_log_entry demo_env ?s1
      = snd (handle_login demo_env login_json ?s1)\<lparr>buffer := []\<rparr>"
    by (rule closed_ok [OF b(1,2)]) (simp only: b(3) demo_login_blob r snd_conv)
  show ?thesis
    unfolding read_lines_def
    by (simp only: bindS_def f prod.case sum.case modify_def a3 r snd_conv) (simp add: init_def)
qed

subsection \<open>Hands\<close>

lemmas gre_eval =
  handle_gre_to_client_message_def game_state_message_def maybe_handle_game_over_stage_def
  track_object_def track_zone_def resolve_def card_object_def hand_zone_def
  capture_opening_hand_def mulligan_step_def demo_env_def dd_touch_def dd_get_def
  liftE_def bindS_def modify_def getS_def

lemma demo_objects:
  "handle_gre_to_client_message demo_env objects_msg (init ''tok'' ''h'' [200])
     = (Inr (), (init ''tok'' ''h'' [200])\<lparr>objects_by_owner :=
          [(KInt 2, [(KInt 101, JInt 70001), (KInt 102, JInt 70002), (KInt 103, JInt 70003)])]\<rparr>)"
  by (simp add: gre_eval objects_msg_def init_def)

lemma demo_hand:
  "handle_gre_to_client_message demo_env hand_msg
     ((init ''tok'' ''h'' [200])\<lparr>objects_by_owner :=
          [(KInt 2, [(KInt 101, JInt 70001), (KInt 102, JInt 70002), (KInt 103, JInt 70003)])]\<rparr>)
   = (Inr (), (init ''tok'' ''h'' [200])\<lparr>objects_by_owner :=
          [(KInt 2, [(KInt 101, JInt 70001), (KInt 102, JInt 70002), (KInt 103, JInt 70003)])],
        cards_in_hand := [(KInt 2, [JInt 70003, JInt 70001])]\<rparr>)"
  by (simp add: gre_eval hand_msg_def init_def)

lemma demo_unknown_hand:
  "handle_gre_to_client_message demo_env unknown_hand_msg
     ((init ''tok'' ''h'' [200])\<lparr>objects_by_owner :=
          [(KInt 2, [(KInt 101, JInt 70001), (KInt 102, JInt 70002), (KInt 103, JInt 70003)])]\<rparr>)
   = (Inr (), (init ''tok'' ''h'' [200])\<lparr>objects_by_owner :=
          [(KInt 2, [(KInt 101, JInt 70001), (KInt 102, JInt 70002), (KInt 103, JInt 70003)])],
        cards_in_hand := [(KInt 2, [JInt 70003, JNull])]\<rparr>)"
  by (simp add: gre_eval unknown_hand_msg_def init_def)

lemma demo_objects_then_hand:
  "forS (handle_gre_to_client_message demo_env) [objects_msg, hand_msg] (init ''tok'' ''h'' [200])
   = (Inr (), (init ''tok'' ''h'' [200])\<lparr>objects_by_owner :=
          [(KInt 2, [(KInt 101, JInt 70001), (KInt 102, JInt 70002), (KInt 103, JInt 70003)])],
        cards_in_hand := [(KInt 2, [JInt 70003, JInt 70001])]\<rparr>)"
  by (simp only: forS.simps demo_objects demo_hand prod.case sum.case)

lemma resolve_ints:
  "mapE (resolve objs) (filter py_truthy (map JInt ids))
     = Inr (map (\<lambda>i. case map_of objs (KInt i) of None \<Rightarrow> JNull | Some c \<Rightarrow> c)
              (filter (\<lambda>i. i \<noteq> 0) ids))"
  by (induction ids) (simp_all add: resolve_def)

lemma dd_get_touch [simp]: "dd_get dflt (dd_touch dflt d k) k = dd_get dflt d k"
  by (auto simp: dd_get_def dd_touch_def map_add_def split: option.splits)

lemma dd_get_update [simp]: "dd_get dflt (AList.update k v d) k = v"
  by (simp add: dd_get_def update_conv')

text \<open>
  Claim C3, as the code has it. For a zone of kind hand whose instance ids are integers,
  the hand of the zone's seat becomes the list that has, for every listed instance id
  other than 0 and in the listed order, the card identifier recorded for that instance in
  the seat's ObjectOwnership, or \<open>None\<close> when none is recorded. An instance id of 0 is
  skipped; an instance that cannot be resolved is not. Reading the seat's ownership also
  creates an empty entry for a seat that has none.
\<close>

theorem hand_zone_rebuilds_hand:
  assumes "py_item zone ''type'' = Inr (JStr ''ZoneType_Hand'')"
    and "py_item zone ''ownerSeatId'' = Inr owner"
    and "key_of owner = Inr seat"
    and "py_get zone ''objectInstanceIds'' (JArr []) = Inr (JArr (map JInt ids))"
  shows "track_zone zone s =
      (Inr (), s\<lparr>objects_by_owner := dd_touch [] (objects_by_owner s) seat,
                cards_in_hand := AList.update seat
                  (map (\<lambda>i. case map_of (dd_get [] (objects_by_owner s) seat) (KInt i) of
                              None \<Rightarrow> JNull | Some c \<Rightarrow> c)
                     (filter (\<lambda>i. i \<noteq> 0) ids))
                  (cards_in_hand s)\<rparr>)
    \<and> dd_get [] (cards_in_hand (snd (track_zone zone s))) seat =
         map (\<lambda>i. case map_of (dd_get [] (objects_by_owner s) seat) (KInt i) of
                     None \<Rightarrow> JNull | Some c \<Rightarrow> c)
           (filter (\<lambda>i. i \<noteq> 0) ids)"
  using assms
  by (simp add: track_zone_def resolve_ints modify_def)

theorem hand_zone_rebuilds_hand_witness:
  "dd_get [] (cards_in_hand (snd (track_zone (hand_zone 2 [103, 101])
      ((init ''tok'' ''h'' [200])\<lparr>objects_by_owner :=
          [(KInt 2, [(KInt 101, JInt 70001), (KInt 102, JInt 70002), (KInt 103, JInt 70003)])]\<rparr>))))
      (KInt 2) = [JInt 70003, JInt 70001]
   \<and> dd_get [] (cards_in_hand (snd (forS (handle_gre_to_client_message demo_env)
        [objects_msg, hand_msg] (init ''tok'' ''h'' [200])))) (KInt 2) = [JInt 70003, JInt 70001]"
proof -
  let ?s = "(init ''tok'' ''h'' [200])\<lparr>objects_by_owner :=
          [(KInt 2, [(KInt 101, JInt 70001), (KInt 102, JInt 70002), (KInt 103, JInt 70003)])]\<rparr>"
  have h: "py_item (hand_zone 2 [103, 101]) ''type'' = Inr (JStr ''ZoneType_Hand'')"
    "py_item (hand_zone 2 [103, 101]) ''ownerSeatId'' = Inr (JInt 2)"
    "key_of (JInt 2) = Inr (KInt 2)"
    "py_get (hand_zone 2 [103, 101]) ''objectInstanceIds'' (JArr []) = Inr (JArr (map JInt [103, 101]))"
    by (simp_all add: hand_zone_def)
  have "dd_get [] (cards_in_hand (snd (track_zone (hand_zone 2 [103, 101]) ?s))) (KInt 2) =
         map (\<lambda>i. case map_of (dd_get [] (objects_by_owner ?s) (KInt 2)) (KInt i) of
                     None \<Rightarrow> JNull | Some c \<Rightarrow> c)
           (filter (\<lambda>i. i \<noteq> 0) [103, 101])"
    using hand_zone_rebuilds_hand [OF h, of ?s] by blast
  then have 1: "dd_get [] (cards_in_hand (snd (track_zone (hand_zone 2 [103, 101]) ?s))) (KInt 2)
      = [JInt 70003, JInt 70001]"
    by (simp add: dd_get_def)
  have 2: "dd_get [] (cards_in_hand (snd (forS (handle_gre_to_client_message demo_env)
        [objects_msg, hand_msg] (init ''tok'' ''h'' [200])))) (KInt 2) = [JInt 70003, JInt 70001]"
    by (simp only: demo_objects_then_hand snd_conv) (simp add: dd_get_def)
  from 1 2 show ?thesis by blast
qed

text \<open>
  Claim C3 as stated fails: seat 2 owns the instances 101, 102 and 103, and a hand zone
  lists 103 and the unknown instance 999. The unknown instance is not skipped: the hand
  has two entries, the second one \<open>None\<close>.
\<close>

theorem unresolved_instance_counterexample:
  "dd_get [] (cards_in_hand (snd (forS (handle_gre_to_client_message demo_env)
      [objects_msg, unknown_hand_msg] (init ''tok'' ''h'' [200])))) (KInt 2)
   = [JInt 70003, JNull]"
  by (simp only: forS.simps demo_objects demo_unknown_hand prod.case sum.case snd_conv)
     (simp add: dd_get_def)

subsection \<open>Handlers that reset the aggregator\<close>

lemma wf_cleared: "world_free agg_cleared"
  by (simp add: world_free_def agg_cleared_def)

lemma wf_hand: "world_free (\<lambda>s. cards_in_hand s = c)"
  by (simp add: world_free_def)

lemma reset_then:
  "(\<And>u. keeps agg_cleared (rest u))
   \<Longrightarrow> agg_cleared (snd (bindS (modify clear_game_data) rest s))"
  by (simp add: keeps_def agg_cleared_def)

lemmas cleared_intros =
  keeps_bindS keeps_liftE keeps_getS keeps_pure keeps_modify keeps_send [OF wf_cleared] keeps_if

lemmas hand_intros =
  keeps_bindS keeps_liftE keeps_getS keeps_pure keeps_modify keeps_send [OF wf_hand] keeps_if

lemma login_resets: "agg_cleared (snd (handle_login ev j s))"
  unfolding handle_login_def
  by (rule reset_then) (intro cleared_intros; simp add: agg_cleared_def)

lemma draft_pick_resets: "agg_cleared (snd (handle_draft_pick ev j s))"
  unfolding handle_draft_pick_def
  by (rule reset_then) (intro cleared_intros)

lemma human_draft_pick_resets: "agg_cleared (snd (handle_human_draft_pick ev j s))"
  unfolding handle_human_draft_pick_def
  by (rule reset_then) (intro cleared_intros)

lemma deck_submission_resets: "agg_cleared (snd (handle_deck_submission ev j s))"
  unfolding handle_deck_submission_def
  by (rule reset_then) (intro cleared_intros)

lemma deck_submission_v3_resets: "agg_cleared (snd (handle_deck_submission_v3 ev j s))"
  unfolding handle_deck_submission_v3_def
  by (rule reset_then) (intro cleared_intros)

lemma match_created_resets: "agg_cleared (snd (handle_match_created ev j s))"
  unfolding handle_match_created_def
  by (rule reset_then) (intro cleared_intros; simp add: agg_cleared_def)

lemma draft_log_resets:
  "py_item j ''DraftStatus'' = Inr (JStr ''Draft.PickNext'')
   \<Longrightarrow> agg_cleared (snd (handle_draft_log ev j s))"
proof -
  assume a: "py_item j ''DraftStatus'' = Inr (JStr ''Draft.PickNext'')"
  have "handle_draft_log ev j s
      = bindS (modify clear_game_data) (\<lambda>u.
         bindS (liftE (bindE (py_item j ''DraftId'') event_name_of)) (\<lambda>event_name.
         bindS (getS cur_user) (\<lambda>user.
         bindS (\<lambda>s. (time_iso ev s, s)) (\<lambda>tm.
         bindS (liftE (bindE (py_item j ''PackNumber'') (py_int ev))) (\<lambda>pack_number.
         bindS (liftE (bindE (py_item j ''PickNumber'') (py_int ev))) (\<lambda>pick_number.
         bindS (liftE (bindE (py_item j ''DraftPack'') (\<lambda>dp.
                       bindE (py_iter dp) (mapE (py_int ev))))) (\<lambda>card_ids.
           send ev ENDPOINT_DRAFT_PACK (JObj [
             (''player_id'', user),
             (''event_name'', event_name),
             (''time'', tm),
             (''pack_number'', pack_number),
             (''pick_number'', pick_number),
             (''card_ids'', JArr card_ids)])))))))) s"
    unfolding handle_draft_log_def by (simp only: a bindS_liftE py_eq_JStr if_True simp_thms)
  also have "agg_cleared (snd \<dots>)"
    by (rule reset_then) (intro cleared_intros)
  finally show ?thesis .
qed

lemma hand_kept:
  "keeps (\<lambda>s. cards_in_hand s = c) (handle_login ev j)"
  "keeps (\<lambda>s. cards_in_hand s = c) (handle_draft_log ev j)"
  "keeps (\<lambda>s. cards_in_hand s = c) (handle_draft_pick ev j)"
  "keeps (\<lambda>s. cards_in_hand s = c) (handle_human_draft_pick ev j)"
  "keeps (\<lambda>s. cards_in_hand s = c) (handle_deck_submission ev j)"
  "keeps (\<lambda>s. cards_in_hand s = c) (handle_deck_submission_v3 ev j)"
  "keeps (\<lambda>s. cards_in_hand s = c) (handle_match_created ev j)"
  unfolding handle_login_def handle_draft_log_def handle_draft_pick_def
    handle_human_draft_pick_def handle_deck_submission_def handle_deck_submission_v3_def
    handle_match_created_def
  by (intro hand_intros; simp)+

text \<open>
  Claim C2, as the code has it. After the login handler, the draft-pick, human-draft-pick,
  deck-submission (both versions) and match-created handlers, and after the draft-log
  handler on a draft-pack notification (status \<open>Draft.PickNext\<close>), whether the handler
  returns or raises: the object ownership, the opening-hand presentation counters, the
  opening hands and the captured mulligan hands are empty and the on-the-play marker is
  unset. The per-seat current hands are not part of the reset: they are what they were
  before the handler.
\<close>

theorem reset_handlers_clear_aggregator:
  "agg_cleared (snd (handle_login ev j s))
   \<and> cards_in_hand (snd (handle_login ev j s)) = cards_in_hand s
   \<and> agg_cleared (snd (handle_draft_pick ev j s))
   \<and> cards_in_hand (snd (handle_draft_pick ev j s)) = cards_in_hand s
   \<and> agg_cleared (snd (handle_human_draft_pick ev j s))
   \<and> cards_in_hand (snd (handle_human_draft_pick ev j s)) = cards_in_hand s
   \<and> agg_cleared (snd (handle_deck_submission ev j s))
   \<and> cards_in_hand (snd (handle_deck_submission ev j s)) = cards_in_hand s
   \<and> agg_cleared (snd (handle_deck_submission_v3 ev j s))
   \<and> cards_in_hand (snd (handle_deck_submission_v3 ev j s)) = cards_in_hand s
   \<and> agg_cleared (snd (handle_match_created ev j s))
   \<and> cards_in_hand (snd (handle_match_created ev j s)) = cards_in_hand s
   \<and> (py_item j ''DraftStatus'' = Inr (JStr ''Draft.PickNext'')
        \<longrightarrow> agg_cleared (snd (handle_draft_log ev j s))
          \<and> cards_in_hand (snd (handle_draft_log ev j s)) = cards_in_hand s)"
  using login_resets [of ev j s] draft_pick_resets [of ev j s]
    human_draft_pick_resets [of ev j s] deck_submission_resets [of ev j s]
    deck_submission_v3_resets [of ev j s] match_created_resets [of ev j s]
    draft_log_resets [of j ev s]
    hand_kept [of "cards_in_hand s" ev j, THEN keeps_at, of s]
  by simp

theorem reset_handlers_clear_aggregator_witness:
  "py_item (JObj [(''DraftStatus'', JStr ''Draft.PickNext'')]) ''DraftStatus''
      = Inr (JStr ''Draft.PickNext'')
   \<and> objects_by_owner (snd (handle_draft_log demo_env (JObj [(''DraftStatus'', JStr ''Draft.PickNext'')])
        ((init ''tok'' ''h'' [200])\<lparr>objects_by_owner :=
          [(KInt 2, [(KInt 101, JInt 70001), (KInt 102, JInt 70002), (KInt 103, JInt 70003)])],
          cards_in_hand := [(KInt 2, [JInt 70003, JInt 70001])]\<rparr>))) = []
   \<and> cards_in_hand (snd (handle_draft_log demo_env (JObj [(''DraftStatus'', JStr ''Draft.PickNext'')])
        ((init ''tok'' ''h'' [200])\<lparr>objects_by_owner :=
          [(KInt 2, [(KInt 101, JInt 70001), (KInt 102, JInt 70002), (KInt 103, JInt 70003)])],
          cards_in_hand := [(KInt 2, [JInt 70003, JInt 70001])]\<rparr>)))
       = [(KInt 2, [JInt 70003, JInt 70001])]
   \<and> objects_by_owner (snd (handle_login demo_env login_json
        ((init ''tok'' ''h'' [200])\<lparr>objects_by_owner :=
          [(KInt 2, [(KInt 101, JInt 70001), (KInt 102, JInt 70002), (KInt 103, JInt 70003)])],
          cards_in_hand := [(KInt 2, [JInt 70003, JInt 70001])]\<rparr>))) = []"
  using reset_handlers_clear_aggregator [of demo_env "JObj [(''DraftStatus'', JStr ''Draft.PickNext'')]"
      "(init ''tok'' ''h'' [200])\<lparr>objects_by_owner :=
          [(KInt 2, [(KInt 101, JInt 70001), (KInt 102, JInt 70002), (KInt 103, JInt 70003)])],
          cards_in_hand := [(KInt 2, [JInt 70003, JInt 70001])]\<rparr>"]
    reset_handlers_clear_aggregator [of demo_env login_json
      "(init ''tok'' ''h'' [200])\<lparr>objects_by_owner :=
          [(KInt 2, [(KInt 101, JInt 70001), (KInt 102, JInt 70002), (KInt 103, JInt 70003)])],
          cards_in_hand := [(KInt 2, [JInt 70003, JInt 70001])]\<rparr>"]
  by (simp add: agg_cleared_def)

text \<open>
  Claim C2 as stated fails for the per-seat hands: the follower learns three cards of
  seat 2 and a hand of two of them, and then handles a login. The hand of seat 2 is still
  there after the login.
\<close>

theorem hands_survive_login_counterexample:
  "cards_in_hand (snd (handle_login demo_env login_json
      (snd (forS (handle_gre_to_client_message demo_env) [objects_msg, hand_msg]
         (init ''tok'' ''h'' [200])))))
   = [(KInt 2, [JInt 70003, JInt 70001])]"
proof -
  have "keeps (\<lambda>s. cards_in_hand s = [(KInt 2, [JInt 70003, JInt 70001])])
          (handle_login demo_env login_json)"
    by (rule hand_kept)
  then show ?thesis
    by (rule keeps_at) (simp only: demo_objects_then_hand snd_conv, simp)
qed

subsection \<open>Game over\<close>

lemma send_published:
  "published (snd (send ev endpoint blob s)) = published s @ [(host s @ ''/'' @ endpoint, blob)]"
proof -
  obtain r a where "snd (send ev endpoint blob s)
       = s\<lparr>responses := r, attempts := a,
          published := published s @ [(host s @ ''/'' @ endpoint, blob)]\<rparr>"
    using send_frame by blast
  then show ?thesis by simp
qed

lemma send_keeps_rest:
  "objects_by_owner (snd (send ev endpoint blob s)) = objects_by_owner s"
  "opening_hand_count_by_seat (snd (send ev endpoint blob s)) = opening_hand_count_by_seat s"
  "opening_hand (snd (send ev endpoint blob s)) = opening_hand s"
  "drawn_hands (snd (send ev endpoint blob s)) = drawn_hands s"
  "starting_team_id (snd (send ev endpoint blob s)) = starting_team_id s"
  "cards_in_hand (snd (send ev endpoint blob s)) = cards_in_hand s"
  "host (snd (send ev endpoint blob s)) = host s"
  "logged (snd (send ev endpoint blob s)) = logged s"
proof -
  obtain r a where e: "snd (send ev endpoint blob s)
       = s\<lparr>responses := r, attempts := a,
          published := published s @ [(host s @ ''/'' @ endpoint, blob)]\<rparr>"
    using send_frame by blast
  show "objects_by_owner (snd (send ev endpoint blob s)) = objects_by_owner s"
    "opening_hand_count_by_seat (snd (send ev endpoint blob s)) = opening_hand_count_by_seat s"
    "opening_hand (snd (send ev endpoint blob s)) = opening_hand s"
    "drawn_hands (snd (send ev endpoint blob s)) = drawn_hands s"
    "starting_team_id (snd (send ev endpoint blob s)) = starting_team_id s"
    "cards_in_hand (snd (send ev endpoint blob s)) = cards_in_hand s"
    "host (snd (send ev endpoint blob s)) = host s"
    "logged (snd (send ev endpoint blob s)) = logged s"
    by (simp_all add: e)
qed

text \<open>What \<open>__send_game_end\<close> publishes when it gets as far as the request.\<close>

lemma send_game_end_published:
  assumes "key_of seat_id = Inr seat" and "cur_log_time s \<noteq> None"
  shows "\<exists>game. published (snd (send_game_end ev seat_id match_id mh en op won wt ger tc du s))
           = published s @ [(host s @ ''/game'', JObj game)]
         \<and> map_of game ''won'' = Some (JBool won)
         \<and> map_of game ''on_play'' = Some (JBool op)
         \<and> map_of game ''mulligans'' = Some mh
         \<and> map_of game ''match_id'' = Some match_id
         \<and> map_of game ''win_type'' = Some wt
         \<and> map_of game ''game_end_reason'' = Some ger
         \<and> map_of game ''turns'' = Some tc
         \<and> agg_cleared (snd (send_game_end ev seat_id match_id mh en op won wt ger tc du s))"
  using assms
  by (auto simp: send_game_end_def Let_def time_iso_def send_published send_keeps_rest
      agg_cleared_def ENDPOINT_GAME_RESULT_def)


lemma send_game_end_ok_timed:
  "fst (send_game_end ev seat_id match_id mh en op won wt ger tc du s) = Inr ()
   \<Longrightarrow> cur_log_time s \<noteq> None"
  by (cases "py_eq match_id (cur_opponent_match_id s)"; cases "cur_log_time s")
     (simp_all add: send_game_end_def Let_def time_iso_def)

text \<open>The steps of \<open>game_over_result\<close> when it returns.\<close>

lemma game_over_result_chain:
  assumes "fst (game_over_result ev ssi gsm gi r s) = Inr ()"
  shows "\<exists>seat_id match_id tc seat w wt ger.
      py_first ssi = Inr seat_id \<and> py_item gi ''matchID'' = Inr match_id
      \<and> turn_count_of gsm = Inr tc \<and> key_of seat_id = Inr seat
      \<and> py_item r ''winningTeamId'' = Inr w \<and> py_item r ''result'' = Inr wt
      \<and> py_item r ''reason'' = Inr ger
      \<and> game_over_result ev ssi gsm gi r s
          = send_game_end ev seat_id match_id
              (JArr (map JArr (butlast (dd_get [] (drawn_hands s) seat))))
              (case current_match_event_id s of
                 None \<Rightarrow> JNull
               | Some (m, e) \<Rightarrow> if py_eq m match_id then e else JNull)
              (py_eq seat_id (starting_team_id s)) (py_eq seat_id w) wt ger tc (JInt (- 1))
              (s\<lparr>drawn_hands := dd_touch [] (drawn_hands s) seat\<rparr>)"
proof -
  obtain seat_id where 1: "py_first ssi = Inr seat_id"
    using assms by (cases "py_first ssi") (simp_all add: game_over_result_def)
  obtain match_id where 2: "py_item gi ''matchID'' = Inr match_id"
    using assms by (cases "py_item gi ''matchID''") (simp_all add: game_over_result_def 1)
  obtain tc where 3: "turn_count_of gsm = Inr tc"
    using assms by (cases "turn_count_of gsm") (simp_all add: game_over_result_def 1 2)
  obtain seat where 4: "key_of seat_id = Inr seat"
    using assms by (cases "key_of seat_id") (simp_all add: game_over_result_def 1 2 3)
  obtain w where 5: "py_item r ''winningTeamId'' = Inr w"
    using assms by (cases "py_item r ''winningTeamId''") (simp_all add: game_over_result_def 1 2 3 4)
  obtain wt where 6: "py_item r ''result'' = Inr wt"
    using assms by (cases "py_item r ''result''") (simp_all add: game_over_result_def 1 2 3 4 5)
  obtain ger where 7: "py_item r ''reason'' = Inr ger"
    using assms by (cases "py_item r ''reason''") (simp_all add: game_over_result_def 1 2 3 4 5 6)
  show ?thesis
    by (simp add: game_over_result_def 1 2 3 4 5 6 7)
qed

lemma game_over_result_ok:
  assumes "fst (game_over_result ev ssi gsm gi r s) = Inr ()"
  shows "\<exists>seat_id seat w game.
      py_first ssi = Inr seat_id \<and> key_of seat_id = Inr seat
      \<and> py_item r ''winningTeamId'' = Inr w
      \<and> published (snd (game_over_result ev ssi gsm gi r s))
           = published s @ [(host s @ ''/game'', JObj game)]
      \<and> map_of game ''won'' = Some (JBool (py_eq seat_id w))
      \<and> map_of game ''on_play'' = Some (JBool (py_eq seat_id (starting_team_id s)))
      \<and> map_of game ''mulligans''
           = Some (JArr (map JArr (butlast (dd_get [] (drawn_hands s) seat))))
      \<and> agg_cleared (snd (game_over_result ev ssi gsm gi r s))"
proof -
  from game_over_result_chain [OF assms]
  obtain seat_id match_id tc seat w wt ger en where
    c: "py_first ssi = Inr seat_id" "key_of seat_id = Inr seat"
       "py_item r ''winningTeamId'' = Inr w"
    and g: "game_over_result ev ssi gsm gi r s
          = send_game_end ev seat_id match_id
              (JArr (map JArr (butlast (dd_get [] (drawn_hands s) seat)))) en
              (py_eq seat_id (starting_team_id s)) (py_eq seat_id w) wt ger tc (JInt (- 1))
              (s\<lparr>drawn_hands := dd_touch [] (drawn_hands s) seat\<rparr>)"
    by blast
  let ?s1 = "s\<lparr>drawn_hands := dd_touch [] (drawn_hands s) seat\<rparr>"
  from assms [unfolded g] have "cur_log_time ?s1 \<noteq> None"
    by (rule send_game_end_ok_timed)
  from send_game_end_published [OF c(2) this] obtain game where
    "published (snd (game_over_result ev ssi gsm gi r s))
           = published ?s1 @ [(host ?s1 @ ''/game'', JObj game)]
         \<and> map_of game ''won'' = Some (JBool (py_eq seat_id w))
         \<and> map_of game ''on_play'' = Some (JBool (py_eq seat_id (starting_team_id s)))
         \<and> map_of game ''mulligans''
              = Some (JArr (map JArr (butlast (dd_get [] (drawn_hands s) seat))))
         \<and> agg_cleared (snd (game_over_result ev ssi gsm gi r s))"
    unfolding g by blast
  with c show ?thesis by auto
qed








lemma loop_find:
  "fst (game_over_loop ev ssi gsm gi rs s) = Inr ()
   \<Longrightarrow> (case find per_game rs of
          None \<Rightarrow> game_over_loop ev ssi gsm gi rs s = (Inr (), s)
        | Some r \<Rightarrow> game_over_loop ev ssi gsm gi rs s = game_over_result ev ssi gsm gi r s)"
proof (induction rs)
  case Nil
  then show ?case by simp
next
  case (Cons r rs)
  then show ?case
    by (cases "py_get r ''scope'' JNull") (auto simp: per_game_def split: option.splits)
qed


lemma loop_some:
  "\<forall>r\<in>set rs. is_dict r \<Longrightarrow> find per_game rs = Some r
   \<Longrightarrow> game_over_loop ev ssi gsm gi rs s = game_over_result ev ssi gsm gi r s"
proof (induction rs)
  case Nil
  then show ?case by simp
next
  case (Cons x rs)
  from Cons.prems obtain kvs where "x = JObj kvs" by (cases x) auto
  with Cons show ?case
    by (auto simp: per_game_def split: option.splits if_splits)
qed

lemma game_over_is_loop:
  assumes "py_get gsm ''gameInfo'' (JObj []) = Inr gi"
    and "py_get gi ''stage'' JNull = Inr (JStr ''GameStage_GameOver'')"
    and "py_get gi ''results'' (JArr []) = Inr results"
    and "py_iter results = Inr rs"
  shows "maybe_handle_game_over_stage ev ssi gsm s = game_over_loop ev ssi gsm gi (rev rs) s"
  by (simp add: maybe_handle_game_over_stage_def assms)

text \<open>Only the read of the first system seat id raises \<open>IndexError\<close>.\<close>

lemma no_ix_bindE:
  "m \<noteq> Inl IndexError \<Longrightarrow> (\<And>x. f x \<noteq> Inl IndexError) \<Longrightarrow> bindE m f \<noteq> Inl IndexError"
  by (cases m) simp_all

lemma no_ix_prims:
  "py_item j k \<noteq> Inl IndexError" "py_get j k d \<noteq> Inl IndexError"
  "key_of j \<noteq> Inl IndexError" "py_iter j \<noteq> Inl IndexError" "py_len j \<noteq> Inl IndexError"
  "py_num j \<noteq> Inl IndexError"
  by (cases j; simp split: option.splits)+

lemma no_ix_sum_turns: "sum_turns ps acc \<noteq> Inl IndexError"
  by (induction ps arbitrary: acc) (simp_all add: no_ix_bindE no_ix_prims)

lemma no_ix_turn_count: "turn_count_of gsm \<noteq> Inl IndexError"
  unfolding turn_count_of_def
  by (intro no_ix_bindE no_ix_prims no_ix_sum_turns) (simp_all add: no_ix_bindE no_ix_prims no_ix_sum_turns)

lemma never_ix_bindS: "never_ix m \<Longrightarrow> (\<And>x. never_ix (f x)) \<Longrightarrow> never_ix (bindS m f)"
proof -
  assume m: "never_ix m" and f: "\<And>x. never_ix (f x)"
  show ?thesis
    unfolding never_ix_def
  proof
    fix s
    obtain r s1 where ms: "m s = (r, s1)" by (cases "m s")
    show "fst (bindS m f s) \<noteq> Inl IndexError"
    proof (cases r)
      case (Inl e)
      with ms m [unfolded never_ix_def, rule_format, of s] show ?thesis by (simp add: bindS_def)
    next
      case (Inr x)
      with ms f [of x, unfolded never_ix_def, rule_format, of s1] show ?thesis
        by (simp add: bindS_def)
    qed
  qed
qed

lemma never_ix_simple:
  "m \<noteq> Inl IndexError \<Longrightarrow> never_ix (liftE m)"
  "never_ix (getS g)" "never_ix (modify h)"
  by (simp_all add: never_ix_def liftE_def getS_def modify_def)

lemma post_loop_errors:
  "fst (post_loop n url body resp s) = Inl e \<Longrightarrow> e = RequestException \<or> e = UnboundLocalError"
proof (induction n arbitrary: resp s)
  case 0
  then show ?case by (simp split: option.splits)
next
  case (Suc n)
  then show ?case
    by (cases "responses s") (auto simp: requests_post_def split: if_splits)
qed

lemma never_ix_send: "never_ix (send ev endpoint blob)"
  unfolding never_ix_def
proof
  fix s
  show "fst (send ev endpoint blob s) \<noteq> Inl IndexError"
  proof
    assume a: "fst (send ev endpoint blob s) = Inl IndexError"
    then have "fst (retry_post ev (host s @ ''/'' @ endpoint) blob s) = Inl IndexError"
      by (simp add: send_def split: prod.splits sum.splits)
    then show False
      using post_loop_errors [of _ _ _ None _ IndexError]
      by (simp add: retry_post_def retry_post_n_def Let_def)
  qed
qed

lemma never_ix_send_game_end:
  "never_ix (send_game_end ev seat_id match_id mh en op won wt ger tc du)"
  unfolding never_ix_def
proof
  fix s
  show "fst (send_game_end ev seat_id match_id mh en op won wt ger tc du s) \<noteq> Inl IndexError"
    using never_ix_send [unfolded never_ix_def, rule_format] no_ix_prims(3) [of seat_id]
    by (cases "py_eq match_id (cur_opponent_match_id s)"; cases "cur_log_time s";
        cases "key_of seat_id")
       (simp_all add: send_game_end_def Let_def time_iso_def)
qed

lemma never_ix_game_over_result:
  "never_ix (game_over_result ev (JArr (x # xs)) gsm gi r)"
  unfolding game_over_result_def
  by (intro never_ix_bindS never_ix_simple never_ix_send_game_end no_ix_prims no_ix_turn_count)
     simp

lemma never_ix_game_over_loop:
  "never_ix (game_over_loop ev (JArr (x # xs)) gsm gi rs)"
proof (induction rs)
  case Nil
  show ?case by (simp add: never_ix_def)
next
  case (Cons r rs)
  show ?case
    unfolding never_ix_def
  proof
    fix s
    show "fst (game_over_loop ev (JArr (x # xs)) gsm gi (r # rs) s) \<noteq> Inl IndexError"
      using Cons [unfolded never_ix_def, rule_format, of s]
        never_ix_game_over_result [unfolded never_ix_def, rule_format, of ev x xs gsm gi r s]
        no_ix_prims(2) [of r "''scope''" JNull]
      by (cases "py_get r ''scope'' JNull") simp_all
  qed
qed

lemma never_ix_maybe_game_over:
  "never_ix (maybe_handle_game_over_stage ev (JArr (x # xs)) gsm)"
  unfolding maybe_handle_game_over_stage_def
proof (intro never_ix_bindS never_ix_simple no_ix_prims)
  fix gi stage
  show "never_ix (if \<not> py_eq stage (JStr ''GameStage_GameOver'') then liftE (Inr ())
         else bindS (liftE (py_get gi ''results'' (JArr [])))
                (\<lambda>results. bindS (liftE (py_iter results))
                   (\<lambda>rs. game_over_loop ev (JArr (x # xs)) gsm gi (rev rs))))"
  proof (cases "py_eq stage (JStr ''GameStage_GameOver'')")
    case True
    then show ?thesis
      by (simp only: not_True_eq_False if_False)
         (intro never_ix_bindS never_ix_simple never_ix_game_over_loop no_ix_prims)
  next
    case False
    then show ?thesis
      by (simp only: not_False_eq_True if_True) (simp add: never_ix_def liftE_def)
  qed
qed

text \<open>With no system seat id, the first result of per-game scope raises \<open>IndexError\<close>.\<close>

lemma game_over_result_no_seat:
  "game_over_result ev (JArr []) gsm gi r s = (Inl IndexError, s)"
  by (simp add: game_over_result_def)










subsection \<open>A game over without a system seat id\<close>

lemma py_item_in:
  "py_item j k = Inr v \<Longrightarrow> py_in k j = Inr True"
proof (cases j)
  case (JObj kvs)
  assume "py_item j k = Inr v"
  with JObj have "map_of kvs k = Some v" by (simp split: option.splits)
  then have "(k, v) \<in> set kvs" by (rule map_of_SomeD)
  then have "k \<in> fst ` set kvs" by force
  with JObj show ?thesis by simp
qed simp_all

lemma bindS_error: "m s = (Inl e, s1) \<Longrightarrow> bindS m f s = (Inl e, s1)"
  by (simp add: bindS_def)

lemma dispatch_gre:
  assumes "json_value_matches ''Client.Connected'' [''params'', ''messageName''] (JObj kvs) = Inr False"
    and "json_value_matches ''DuelScene.GameStop'' [''params'', ''messageName''] (JObj kvs) = Inr False"
    and "map_of kvs ''DraftStatus'' = None"
    and "json_value_matches ''Draft.MakePick'' [''method''] (JObj kvs) = Inr False"
    and "json_value_matches ''Draft.MakeHumanDraftPick'' [''method''] (JObj kvs) = Inr False"
    and "json_value_matches ''Event.DeckSubmit'' [''method''] (JObj kvs) = Inr False"
    and "json_value_matches ''Event.DeckSubmitV3'' [''method''] (JObj kvs) = Inr False"
    and "json_value_matches ''DoneWithMatches'' [''CurrentEventState''] (JObj kvs) = Inr False"
    and "map_of kvs ''matchGameRoomStateChangedEvent'' = None"
    and p: "py_path (JObj kvs) [''greToClientEvent'', ''greToClientMessages''] = Inr (JArr msgs)"
  shows "dispatch ev full_log (JObj kvs) s = forS (handle_gre_to_client_message ev) msgs s"
proof -
  from p obtain inner where i: "py_item (JObj kvs) ''greToClientEvent'' = Inr inner"
    and m: "py_item inner ''greToClientMessages'' = Inr (JArr msgs)"
    unfolding py_path2 by blast
  have a: "py_in ''greToClientEvent'' (JObj kvs) = Inr True"
    using i by (rule py_item_in)
  have b: "py_in ''greToClientMessages'' inner = Inr True"
    using m by (rule py_item_in)
  have c: "bindE (py_in ''greToClientEvent'' (JObj kvs)) (\<lambda>g.
              if g then bindE (py_item (JObj kvs) ''greToClientEvent'')
                          (py_in ''greToClientMessages'')
              else Inr False) = Inr True"
    by (simp only: a i b bindE_simps if_True)
  have d: "bindE (py_path (JObj kvs) [''greToClientEvent'', ''greToClientMessages'']) py_iter
       = Inr msgs"
    by (simp only: p bindE_simps py_iter.simps)
  have k3: "py_in ''DraftStatus'' (JObj kvs) = Inr False"
    by (simp add: key_in [OF assms(3)])
  have k9: "py_in ''matchGameRoomStateChangedEvent'' (JObj kvs) = Inr False"
    by (simp add: key_in [OF assms(9)])
  show ?thesis
    unfolding dispatch_def
    by (simp only: assms(1,2,4,5,6,7,8) c d k3 k9 bindS_liftE if_False if_True)
qed

lemma gre_no_seat:
  assumes g: "py_get gsm ''gameInfo'' (JObj []) = Inr gi"
    "py_get gi ''stage'' JNull = Inr (JStr ''GameStage_GameOver'')"
    "py_get gi ''results'' (JArr []) = Inr results"
    "py_iter results = Inr rs"
    and d: "\<forall>r\<in>set rs. is_dict r"
    and f: "find per_game (rev rs) \<noteq> None"
  shows "maybe_handle_game_over_stage ev (JArr []) gsm s = (Inl IndexError, s)"
proof -
  from f obtain r where r: "find per_game (rev rs) = Some r" by auto
  from d have "\<forall>r\<in>set (rev rs). is_dict r" by simp
  from loop_some [OF this r] show ?thesis
    by (simp add: game_over_is_loop [OF g] game_over_result_no_seat)
qed

lemma gre_message_no_seat:
  assumes "maybe_handle_game_over_stage ev (JArr []) gsm s = (Inl IndexError, s)"
    and "py_item m ''type'' = Inr (JStr ''GREMessageType_GameStateMessage'')"
    and "py_get m ''gameStateMessage'' (JObj []) = Inr gsm"
    and "py_get m ''systemSeatIds'' (JArr []) = Inr (JArr [])"
  shows "handle_gre_to_client_message ev m s = (Inl IndexError, s)"
proof -
  note e = bindS_error [of "maybe_handle_game_over_stage ev (JArr []) gsm" s IndexError s,
      OF assms(1)]
  show ?thesis
    using assms(2,3,4)
    by (simp add: handle_gre_to_client_message_def game_state_message_def e)
qed

lemma gre_entry_no_seat:
  assumes e: "gre_entry ev s kvs (m # rest)"
    and h: "\<And>s1. handle_gre_to_client_message ev m s1 = (Inl IndexError, s1)"
  shows "logged (handle_complete_log_entry ev s) = logged s @ [(IndexError, concat (buffer s))]
     \<and> published (handle_complete_log_entry ev s) = published s
     \<and> attempts (handle_complete_log_entry ev s) = attempts s
     \<and> buffer (handle_complete_log_entry ev s) = []"
proof -
  let ?full = "concat (buffer s)"
  from e obtain i d en where i: "json_start ?full = Some i"
    and d: "raw_decode ev ?full i = Some (d, en)"
    and x: "extract_payload ev d = Inr (JObj kvs)"
    by (auto simp: gre_entry_def split: option.splits)
  from e have b: "buffer s \<noteq> []" "cur_log_time s \<noteq> None"
    by (simp_all add: gre_entry_def)
  from e have c: "json_value_matches ''Client.Connected'' [''params'', ''messageName''] (JObj kvs) = Inr False"
    "json_value_matches ''DuelScene.GameStop'' [''params'', ''messageName''] (JObj kvs) = Inr False"
    "map_of kvs ''DraftStatus'' = None"
    "json_value_matches ''Draft.MakePick'' [''method''] (JObj kvs) = Inr False"
    "json_value_matches ''Draft.MakeHumanDraftPick'' [''method''] (JObj kvs) = Inr False"
    "json_value_matches ''Event.DeckSubmit'' [''method''] (JObj kvs) = Inr False"
    "json_value_matches ''Event.DeckSubmitV3'' [''method''] (JObj kvs) = Inr False"
    "json_value_matches ''DoneWithMatches'' [''CurrentEventState''] (JObj kvs) = Inr False"
    "map_of kvs ''matchGameRoomStateChangedEvent'' = None"
    "py_path (JObj kvs) [''greToClientEvent'', ''greToClientMessages''] = Inr (JArr (m # rest))"
    by (simp_all add: gre_entry_def del: py_path.simps json_value_matches.simps)
  define s1 where "s1 = (case maybe_get_utc_timestamp ev (JObj kvs) of
                                 Inr (Some t) \<Rightarrow> s\<lparr>last_utc_time := t\<rparr>
                               | _ \<Rightarrow> s)"
  have s1f: "logged s1 = logged s" "attempts s1 = attempts s" "published s1 = published s"
    by (simp_all add: s1_def split: sum.splits option.splits)
  have "handle_blob ev ?full s = dispatch ev ?full (JObj kvs) s1"
    by (simp add: handle_blob_def i d x s1_def Let_def)
  also have "\<dots> = forS (handle_gre_to_client_message ev) (m # rest) s1"
    by (rule dispatch_gre [OF c])
  also have "\<dots> = (Inl IndexError, s1)"
    by (simp add: h)
  finally have "handle_blob ev ?full s = (Inl IndexError, s1)" .
  from closed_error [OF b this] show ?thesis
    by (simp add: s1f)
qed

text \<open>
  Claim C10. For a game-state message whose game info has the stage game over and whose
  results (all of them objects) include one of per-game scope, the handler reads index 0
  of the list of system seat ids. With an empty list the read raises \<open>IndexError\<close> before
  anything is changed or published; the exception leaves the GRE message handler, and
  when the message is the first of a GRE event it reaches the place where the entry is
  closed: it is logged there with the text of the entry, the buffer is cleared and no
  record is published for the entry. With a list that is not empty the handler does not
  raise \<open>IndexError\<close>.
\<close>

theorem empty_seat_list_is_logged:
  assumes "py_get gsm ''gameInfo'' (JObj []) = Inr gi"
    and "py_get gi ''stage'' JNull = Inr (JStr ''GameStage_GameOver'')"
    and "py_get gi ''results'' (JArr []) = Inr results"
    and "py_iter results = Inr rs"
    and "\<forall>r\<in>set rs. is_dict r"
    and "find per_game (rev rs) \<noteq> None"
    and "py_item m ''type'' = Inr (JStr ''GREMessageType_GameStateMessage'')"
    and "py_get m ''gameStateMessage'' (JObj []) = Inr gsm"
  shows "maybe_handle_game_over_stage ev (JArr []) gsm s = (Inl IndexError, s)
     \<and> (py_get m ''systemSeatIds'' (JArr []) = Inr (JArr [])
          \<longrightarrow> handle_gre_to_client_message ev m s = (Inl IndexError, s))
     \<and> (py_get m ''systemSeatIds'' (JArr []) = Inr (JArr []) \<and> gre_entry ev s kvs (m # rest)
          \<longrightarrow> logged (handle_complete_log_entry ev s)
                = logged s @ [(IndexError, concat (buffer s))]
            \<and> published (handle_complete_log_entry ev s) = published s
            \<and> attempts (handle_complete_log_entry ev s) = attempts s
            \<and> buffer (handle_complete_log_entry ev s) = [])
     \<and> fst (maybe_handle_game_over_stage ev (JArr (x # xs)) gsm s) \<noteq> Inl IndexError"
proof -
  note a = gre_no_seat [OF assms(1-6)]
  have b: "handle_gre_to_client_message ev m s1 = (Inl IndexError, s1)"
    if "py_get m ''systemSeatIds'' (JArr []) = Inr (JArr [])" for s1
    by (rule gre_message_no_seat [OF a assms(7,8) that])
  have c: "logged (handle_complete_log_entry ev s)
                = logged s @ [(IndexError, concat (buffer s))]
            \<and> published (handle_complete_log_entry ev s) = published s
            \<and> attempts (handle_complete_log_entry ev s) = attempts s
            \<and> buffer (handle_complete_log_entry ev s) = []"
    if "py_get m ''systemSeatIds'' (JArr []) = Inr (JArr [])" "gre_entry ev s kvs (m # rest)"
    by (rule gre_entry_no_seat [OF that(2) b [OF that(1)]])
  have d: "fst (maybe_handle_game_over_stage ev (JArr (x # xs)) gsm s) \<noteq> Inl IndexError"
    using never_ix_maybe_game_over [unfolded never_ix_def, rule_format] .
  from a b c d show ?thesis by blast
qed

lemma demo_gre_entry:
  "gre_entry demo_env ((init ''tok'' ''h'' [200])\<lparr>buffer := [gameover_noseat_text]\<rparr>)
     gameover_noseat_fields [gameover_noseat_msg]"
  by (simp add: gre_entry_def init_def extract_payload_def)
     (simp add: gameover_noseat_fields_def)

theorem empty_seat_list_is_logged_witness:
  "py_get over_state ''gameInfo'' (JObj []) = Inr over_info
   \<and> py_get over_info ''stage'' JNull = Inr (JStr ''GameStage_GameOver'')
   \<and> is_dict (game_result ''MatchScope_Game'') \<and> is_dict (game_result ''MatchScope_Match'')
   \<and> find per_game (rev [game_result ''MatchScope_Game'', game_result ''MatchScope_Match''])
        \<noteq> None
   \<and> py_get gameover_noseat_msg ''systemSeatIds'' (JArr []) = Inr (JArr [])
   \<and> gre_entry demo_env ((init ''tok'' ''h'' [200])\<lparr>buffer := [gameover_noseat_text]\<rparr>)
        gameover_noseat_fields [gameover_noseat_msg]
   \<and> handle_gre_to_client_message demo_env gameover_noseat_msg (init ''tok'' ''h'' [200])
        = (Inl IndexError, init ''tok'' ''h'' [200])
   \<and> logged (handle_complete_log_entry demo_env
         ((init ''tok'' ''h'' [200])\<lparr>buffer := [gameover_noseat_text]\<rparr>))
        = [(IndexError, gameover_noseat_text)]
   \<and> published (handle_complete_log_entry demo_env
         ((init ''tok'' ''h'' [200])\<lparr>buffer := [gameover_noseat_text]\<rparr>)) = []
   \<and> fst (maybe_handle_game_over_stage demo_env (JArr [JInt 1]) over_state
         (init ''tok'' ''h'' [200])) \<noteq> Inl IndexError"
proof -
  let ?rs = "[game_result ''MatchScope_Game'', game_result ''MatchScope_Match'']"
  let ?s0 = "init ''tok'' ''h'' [200]"
  let ?s1 = "?s0\<lparr>buffer := [gameover_noseat_text]\<rparr>"
  have h: "py_get over_state ''gameInfo'' (JObj []) = Inr over_info"
    "py_get over_info ''stage'' JNull = Inr (JStr ''GameStage_GameOver'')"
    "py_get over_info ''results'' (JArr []) = Inr (JArr ?rs)"
    "py_iter (JArr ?rs) = Inr ?rs"
    "\<forall>r\<in>set ?rs. is_dict r"
    "find per_game (rev ?rs) \<noteq> None"
    "py_item gameover_noseat_msg ''type'' = Inr (JStr ''GREMessageType_GameStateMessage'')"
    "py_get gameover_noseat_msg ''gameStateMessage'' (JObj []) = Inr over_state"
    by (simp_all add: over_state_def over_info_def game_result_def per_game_def
        gameover_noseat_msg_def)
  have n: "py_get gameover_noseat_msg ''systemSeatIds'' (JArr []) = Inr (JArr [])"
    by (simp add: gameover_noseat_msg_def)
  note t0 = empty_seat_list_is_logged [OF h, of demo_env ?s0 gameover_noseat_fields "[]"
      "JInt 1" "[]"]
  note t1 = empty_seat_list_is_logged [OF h, of demo_env ?s1 gameover_noseat_fields "[]"
      "JInt 1" "[]"]
  have 1: "handle_gre_to_client_message demo_env gameover_noseat_msg ?s0 = (Inl IndexError, ?s0)"
    using t0 n by blast
  have 2: "logged (handle_complete_log_entry demo_env ?s1) = [(IndexError, gameover_noseat_text)]
     \<and> published (handle_complete_log_entry demo_env ?s1) = []"
    using t1 n demo_gre_entry by (simp add: init_def)
  have 3: "fst (maybe_handle_game_over_stage demo_env (JArr [JInt 1]) over_state ?s0)
      \<noteq> Inl IndexError"
    using t0 by blast
  have 4: "is_dict (game_result ''MatchScope_Game'')" "is_dict (game_result ''MatchScope_Match'')"
    by (simp_all add: game_result_def)
  from h(1,2,6) n demo_gre_entry 1 2 3 4 show ?thesis by blast
qed

end
